theory Spec2Isabelle
  imports Main "HOL-Library.Sublist"
begin

section \<open>Library Management System: the REST handlers of app.py\<close>

text \<open>
  The program is a Flask application over two SQLAlchemy models, \<open>Book\<close> and \<open>Author\<close>,
  joined by the association table \<open>book_author\<close>, stored in SQLite. Each handler is
  modelled as a function from the request and the stored tables to a response and the
  stored tables afterwards.

  Conventions of the embedding:
  \<^item> a table is the list of its rows; \<open>Query.all()\<close> and a relationship load return rows
    in table order (the source fixes no order, so theorems speak of sets of rows);
  \<^item> a \<open>string\<close> is a Python \<open>str\<close>, one \<open>char\<close> per code point below 256;
  \<^item> an integer of a request is a Python \<open>int\<close>, unbounded; SQLite holds signed 64-bit
    integers, and binding any other value to a statement raises \<open>OverflowError\<close>;
  \<^item> a request body is what \<open>request.get_json()\<close> makes of it: a JSON object, the JSON
    value null, or a body that Flask rejects; a field of an object holds null or a value
    of the JSON type its column stores (a string, an integer, a list of integers);
  \<^item> an exception is a value of type \<open>error\<close>; no handler catches any, so Flask answers
    with status 500, and the tables stay as they were;
  \<^item> the session writes to the tables at \<open>db.session.commit()\<close>, where the constraints
    the models declare (\<open>nullable=False\<close>, \<open>unique=True\<close>, the composite primary key of
    \<open>book_author\<close>) are checked;
  \<^item> the source pins no version of SQLAlchemy, and the versions differ in what the unit
    of work does with a collection that holds the same Author more than once; the
    handlers that fill such a collection take that decision as a parameter.
\<close>

subsection \<open>Models\<close>

record book =
  b_id :: int
  b_title :: string
  b_year :: "int option"
  b_isbn :: "string option"
  b_created_at :: nat

record author =
  a_id :: int
  a_name :: string
  a_birth_year :: "int option"
  a_country :: "string option"
  a_created_at :: nat

text \<open>The stored state: both tables and the association rows \<open>(book_id, author_id)\<close>.\<close>

record db =
  books :: "book list"
  authors :: "author list"
  book_author :: "(int \<times> int) list"

text \<open>\<open>Book.simple_dict\<close>, \<open>Author.simple_dict\<close>, \<open>Book.to_dict\<close>, \<open>Author.to_dict\<close>.\<close>

record book_simple =
  bs_id :: int
  bs_title :: string
  bs_year :: "int option"

record author_simple =
  as_id :: int
  as_name :: string
  as_country :: "string option"

record book_dict =
  bd_id :: int
  bd_title :: string
  bd_year :: "int option"
  bd_isbn :: "string option"
  bd_created_at :: nat
  bd_authors :: "author_simple list"

record author_dict =
  ad_id :: int
  ad_name :: string
  ad_birth_year :: "int option"
  ad_country :: "string option"
  ad_created_at :: nat
  ad_books :: "book_simple list"

definition book_simple_dict :: "book \<Rightarrow> book_simple" where
  "book_simple_dict b = \<lparr>bs_id = b_id b, bs_title = b_title b, bs_year = b_year b\<rparr>"

definition author_simple_dict :: "author \<Rightarrow> author_simple" where
  "author_simple_dict a = \<lparr>as_id = a_id a, as_name = a_name a, as_country = a_country a\<rparr>"

text \<open>The relationship \<open>book.authors\<close> and its backref \<open>author.books\<close>, read through
  the association table.\<close>

definition book_authors :: "db \<Rightarrow> book \<Rightarrow> author list" where
  "book_authors s b = filter (\<lambda>a. (b_id b, a_id a) \<in> set (book_author s)) (authors s)"

definition author_books :: "db \<Rightarrow> author \<Rightarrow> book list" where
  "author_books s a = filter (\<lambda>b. (b_id b, a_id a) \<in> set (book_author s)) (books s)"

definition book_to_dict :: "db \<Rightarrow> book \<Rightarrow> book_dict" where
  "book_to_dict s b =
     \<lparr>bd_id = b_id b, bd_title = b_title b, bd_year = b_year b, bd_isbn = b_isbn b,
      bd_created_at = b_created_at b,
      bd_authors = map author_simple_dict (book_authors s b)\<rparr>"

definition author_to_dict :: "db \<Rightarrow> author \<Rightarrow> author_dict" where
  "author_to_dict s a =
     \<lparr>ad_id = a_id a, ad_name = a_name a, ad_birth_year = a_birth_year a,
      ad_country = a_country a, ad_created_at = a_created_at a,
      ad_books = map book_simple_dict (author_books s a)\<rparr>"

subsection \<open>Responses and exceptions\<close>

text \<open>The JSON envelope of each handler. \<open>ServerError\<close> is Flask's answer to an
  exception no handler catches, \<open>Aborted\<close> its answer to a body that
  \<open>request.get_json()\<close> rejects.\<close>

datatype body =
    Failure string
  | BookList nat "book_dict list"
  | BookOne "book_dict"
  | BookSaved string "book_dict"
  | AuthorList nat "author_dict list"
  | AuthorOne "author_dict"
  | AuthorSaved string "author_dict"
  | Deleted string
  | SearchResult string "book_dict list" "author_dict list" nat nat
  | ServerError
  | Aborted

type_synonym response = "nat \<times> body"

fun success :: "body \<Rightarrow> bool" where
  "success (Failure e) = False"
| "success ServerError = False"
| "success Aborted = False"
| "success r = True"

fun error_of :: "body \<Rightarrow> string option" where
  "error_of (Failure e) = Some e"
| "error_of r = None"

text \<open>The exceptions the handlers can raise: an integer that SQLite cannot hold, a
  statement SQLite refuses to run, a constraint violated at commit, iterating null.\<close>

datatype error = OverflowError | OperationalError | IntegrityError | TypeError

subsection \<open>Lookups\<close>

text \<open>The integers SQLite stores and accepts as parameters.\<close>

definition fits_int64 :: "int \<Rightarrow> bool" where
  "fits_int64 n = (- (2 ^ 63) \<le> n \<and> n < 2 ^ 63)"

text \<open>The row of a table with a given primary key.\<close>

definition book_row :: "db \<Rightarrow> int \<Rightarrow> book option" where
  "book_row s i = find (\<lambda>b. b_id b = i) (books s)"

definition author_row :: "db \<Rightarrow> int \<Rightarrow> author option" where
  "author_row s i = find (\<lambda>a. a_id a = i) (authors s)"

text \<open>\<open>Book.query.get(id)\<close> and \<open>Author.query.get(id)\<close>: the id is bound to a
  \<open>SELECT\<close>, which raises for an id outside the 64-bit range; the route converter
  \<open><int:id>\<close> and a JSON list of ids admit such ids.\<close>

definition get_book_row :: "db \<Rightarrow> int \<Rightarrow> error + book option" where
  "get_book_row s i = (if fits_int64 i then Inr (book_row s i) else Inl OverflowError)"

definition get_author_row :: "db \<Rightarrow> int \<Rightarrow> error + author option" where
  "get_author_row s i = (if fits_int64 i then Inr (author_row s i) else Inl OverflowError)"

text \<open>The id SQLite gives a new row of an \<open>INTEGER PRIMARY KEY\<close> table: one more
  than the largest id in use, 1 in an empty table.\<close>

definition next_id :: "int list \<Rightarrow> int" where
  "next_id ids = (case ids of [] \<Rightarrow> 1 | x # xs \<Rightarrow> fold max xs x + 1)"

subsection \<open>Strings: strip and ilike\<close>

text \<open>\<open>str.isspace\<close> on the code points below 256.\<close>

definition isspace :: "char \<Rightarrow> bool" where
  "isspace c = (of_char c \<in> {9, 10, 11, 12, 13, 28, 29, 30, 31, 32, 133, 160 :: nat})"

definition strip :: "string \<Rightarrow> string" where
  "strip s = rev (dropWhile isspace (rev (dropWhile isspace s)))"

text \<open>SQLite's \<open>lower\<close>: it folds the ASCII letters only.\<close>

definition lower :: "char \<Rightarrow> char" where
  "lower c = (if 65 \<le> (of_char c :: nat) \<and> (of_char c :: nat) \<le> 90
              then char_of (of_char c + 32 :: nat) else c)"

text \<open>SQLite's \<open>patternCompare\<close> with no escape character: \<open>%\<close> stands for any run of
  characters, \<open>_\<close> for any single one, every other character for itself up to ASCII
  case.\<close>

fun pattern_compare :: "string \<Rightarrow> string \<Rightarrow> bool" where
  "pattern_compare [] t = (t = [])"
| "pattern_compare (p # ps) [] = (p = CHR ''%'' \<and> pattern_compare ps [])"
| "pattern_compare (p # ps) (c # cs) =
     (if p = CHR ''%'' then pattern_compare ps (c # cs) \<or> pattern_compare (p # ps) cs
      else (p = CHR ''_'' \<or> lower p = lower c) \<and> pattern_compare ps cs)"

text \<open>SQLite hands both operands of \<open>LIKE\<close> to \<open>patternCompare\<close> as C strings, which
  end at their first NUL character.\<close>

definition c_string :: "string \<Rightarrow> string" where
  "c_string s = takeWhile (\<lambda>c. c \<noteq> CHR 0x00) s"

text \<open>The number of bytes of a string in UTF-8: two for a code point from 128 to 255.\<close>

definition utf8_length :: "string \<Rightarrow> nat" where
  "utf8_length s = sum_list (map (\<lambda>c. if (of_char c :: nat) < 128 then 1 else 2) s)"

text \<open>The SQL operator \<open>text LIKE pattern\<close>: SQLite refuses a pattern of more than
  50000 bytes (\<open>LIKE or GLOB pattern too complex\<close>).\<close>

definition like :: "string \<Rightarrow> string \<Rightarrow> error + bool" where
  "like pattern text =
     (if 50000 < utf8_length pattern then Inl OperationalError
      else Inr (pattern_compare (c_string pattern) (c_string text)))"

text \<open>\<open>column.ilike(pattern)\<close>, which SQLAlchemy renders for SQLite as
  \<open>lower(column) LIKE lower(pattern)\<close>.\<close>

definition ilike :: "string \<Rightarrow> string \<Rightarrow> error + bool" where
  "ilike col pat = like (map lower pat) (map lower col)"

text \<open>\<open>Query.filter(condition).all()\<close>: the condition is evaluated on each row of the
  table, and the query raises when an evaluation does.\<close>

fun filter_all :: "('a \<Rightarrow> error + bool) \<Rightarrow> 'a list \<Rightarrow> error + 'a list" where
  "filter_all p [] = Inr []"
| "filter_all p (x # xs) =
     (case p x of
        Inl e \<Rightarrow> Inl e
      | Inr keep \<Rightarrow>
          (case filter_all p xs of
             Inl e \<Rightarrow> Inl e
           | Inr ys \<Rightarrow> Inr (if keep then x # ys else ys)))"

subsection \<open>GET /api/search\<close>

definition books_by_title :: "string \<Rightarrow> db \<Rightarrow> error + book list" where
  "books_by_title query s =
     filter_all (\<lambda>b. ilike (b_title b) (''%'' @ query @ ''%'')) (books s)"

definition authors_by_name :: "string \<Rightarrow> db \<Rightarrow> error + author list" where
  "authors_by_name query s =
     filter_all (\<lambda>a. ilike (a_name a) (''%'' @ query @ ''%'')) (authors s)"

definition search_all :: "string \<Rightarrow> db \<Rightarrow> response" where
  "search_all q s =
     (let query = strip q in
      if query = [] then (400, Failure ''Search query is required'')
      else
        (case books_by_title query s of
           Inl e \<Rightarrow> (500, ServerError)
         | Inr by_title \<Rightarrow>
            (case authors_by_name query s of
               Inl e \<Rightarrow> (500, ServerError)
             | Inr by_name \<Rightarrow>
                 let books_by_author_name = concat (map (author_books s) by_name);
                     all_books = remdups (by_title @ books_by_author_name);
                     authors_by_book_title = concat (map (book_authors s) by_title);
                     all_authors = remdups (by_name @ authors_by_book_title)
                 in (200, SearchResult query
                            (map (book_to_dict s) all_books)
                            (map (author_to_dict s) all_authors)
                            (length all_books) (length all_authors)))))"

subsection \<open>Request bodies\<close>

text \<open>What \<open>request.get_json()\<close> does with the body of a request: it aborts the request
  with status 415 when the body is not sent as JSON (\<open>NotJson\<close>) and with status 400 when
  it does not parse (\<open>Malformed\<close>), or it returns \<open>None\<close> (\<open>JsonNull\<close>: the JSON value null,
  and in a Flask before 2.1 also a body not sent as JSON), or the parsed object.\<close>

datatype 'a json_body = NotJson | Malformed | JsonNull | JsonObject 'a

text \<open>The parsed JSON object of a book request. Each field is \<open>None\<close> when the key
  is absent, \<open>Some None\<close> when it is present with null, \<open>Some (Some v)\<close> when it is
  present with a value; \<open>d_other\<close> says whether the object has any further key.\<close>

record book_data =
  d_title :: "string option option"
  d_year :: "int option option"
  d_isbn :: "string option option"
  d_author_ids :: "int list option option"
  d_other :: bool

record author_data =
  d_name :: "string option option"
  d_birth_year :: "int option option"
  d_country :: "string option option"
  d_more :: bool

text \<open>\<open>not data\<close> for a dictionary: it has no key at all.\<close>

definition book_data_empty :: "book_data \<Rightarrow> bool" where
  "book_data_empty d =
     (d_title d = None \<and> d_year d = None \<and> d_isbn d = None \<and> d_author_ids d = None
      \<and> \<not> d_other d)"

definition author_data_empty :: "author_data \<Rightarrow> bool" where
  "author_data_empty d =
     (d_name d = None \<and> d_birth_year d = None \<and> d_country d = None \<and> \<not> d_more d)"

text \<open>\<open>data.get(key)\<close>: the value, or \<open>None\<close> for an absent key as for null.\<close>

definition dict_get :: "'a option option \<Rightarrow> 'a option" where
  "dict_get v = (case v of None \<Rightarrow> None | Some x \<Rightarrow> x)"

text \<open>Python's truth value of a string or list that may be \<open>None\<close>.\<close>

definition truthy :: "'a list option \<Rightarrow> bool" where
  "truthy v = (case v of None \<Rightarrow> False | Some xs \<Rightarrow> xs \<noteq> [])"

subsection \<open>What a commit checks\<close>

text \<open>An \<open>Integer\<close> column holds null or a 64-bit integer.\<close>

definition storable :: "int option \<Rightarrow> bool" where
  "storable v = (case v of None \<Rightarrow> True | Some n \<Rightarrow> fits_int64 n)"

text \<open>\<open>unique=True\<close> on \<open>Book.isbn\<close>: a non-null ISBN that a row with another id
  carries already cannot be stored.\<close>

definition isbn_taken :: "db \<Rightarrow> int \<Rightarrow> string option \<Rightarrow> bool" where
  "isbn_taken s i v =
     (case v of None \<Rightarrow> False
      | Some x \<Rightarrow> find (\<lambda>b. b_id b \<noteq> i \<and> b_isbn b = Some x) (books s) \<noteq> None)"

text \<open>The composite primary key of \<open>book_author\<close>: the rows inserted must differ from
  each other and from the rows stored.\<close>

definition links_insertable :: "db \<Rightarrow> (int \<times> int) list \<Rightarrow> bool" where
  "links_insertable s rows =
     (distinct rows \<and> list_all (\<lambda>r. r \<notin> set (book_author s)) rows)"

text \<open>The unit of work of SQLAlchemy, asked to commit the collection \<open>book.authors\<close> of
  the Book with a given id when the collection holds some Author more than once. Some
  versions insert one association row per Author and succeed, others insert one row per
  element (or one for an Author the Book had already) and fail on the primary key. The
  answer \<open>True\<close> stands for the former.\<close>

type_synonym unit_of_work = "db \<Rightarrow> int \<Rightarrow> author list \<Rightarrow> bool"

text \<open>The loop \<open>for author_id in data['author_ids']\<close> around \<open>Author.query.get\<close>: an
  id of no Author is skipped, an id outside the 64-bit range raises.\<close>

fun append_authors :: "db \<Rightarrow> int list \<Rightarrow> author list \<Rightarrow> error + author list" where
  "append_authors s [] acc = Inr acc"
| "append_authors s (i # ids) acc =
     (case get_author_row s i of
        Inl e \<Rightarrow> Inl e
      | Inr None \<Rightarrow> append_authors s ids acc
      | Inr (Some a) \<Rightarrow> append_authors s ids (acc @ [a]))"

subsection \<open>Book routes\<close>

definition get_books :: "db \<Rightarrow> response" where
  "get_books s = (200, BookList (length (books s)) (map (book_to_dict s) (books s)))"

definition get_book :: "int \<Rightarrow> db \<Rightarrow> response" where
  "get_book i s =
     (case get_book_row s i of
        Inl e \<Rightarrow> (500, ServerError)
      | Inr None \<Rightarrow> (404, Failure ''Book not found'')
      | Inr (Some b) \<Rightarrow> (200, BookOne (book_to_dict s b)))"

text \<open>\<open>db.session.add(new_book)\<close> and \<open>db.session.commit()\<close>: the row is inserted, and
  one association row for each Author of \<open>new_book.authors\<close>, or the commit raises. (When
  the largest id in use is \<open>2^63 - 1\<close>, SQLite draws ids at random and may give up; the
  embedding lets the insert fail then.)\<close>

definition add_book :: "unit_of_work \<Rightarrow> book \<Rightarrow> author list \<Rightarrow> db \<Rightarrow> error + db" where
  "add_book uow new_book new_authors s =
     (let rows = map (\<lambda>a. (b_id new_book, a_id a)) (remdups new_authors)
      in if \<not> storable (b_year new_book) then Inl OverflowError
         else if \<not> fits_int64 (b_id new_book) then Inl OperationalError
         else if isbn_taken s (b_id new_book) (b_isbn new_book)
                 \<or> (\<not> distinct new_authors \<and> \<not> uow s (b_id new_book) new_authors)
                 \<or> \<not> links_insertable s rows
           then Inl IntegrityError
         else Inr (s\<lparr>books := books s @ [new_book],
                     book_author := book_author s @ rows\<rparr>))"

text \<open>\<open>create_book\<close>; \<open>now\<close> is the clock read for \<open>created_at\<close>.\<close>

definition create_book ::
  "unit_of_work \<Rightarrow> nat \<Rightarrow> book_data json_body \<Rightarrow> db \<Rightarrow> response \<times> db" where
  "create_book uow now body s =
     (case body of
        NotJson \<Rightarrow> ((415, Aborted), s)
      | Malformed \<Rightarrow> ((400, Aborted), s)
      | JsonNull \<Rightarrow> ((400, Failure ''No data provided''), s)
      | JsonObject d \<Rightarrow>
          if book_data_empty d then ((400, Failure ''No data provided''), s)
          else (case dict_get (d_title d) of
             None \<Rightarrow> ((400, Failure ''Title is required''), s)
           | Some t \<Rightarrow>
               if t = [] then ((400, Failure ''Title is required''), s)
               else if truthy (dict_get (d_isbn d)) \<and>
                       find (\<lambda>b. b_isbn b = dict_get (d_isbn d)) (books s) \<noteq> None
                 then ((400, Failure ''ISBN already exists''), s)
               else
                 let new_book = \<lparr>b_id = next_id (map b_id (books s)), b_title = t,
                                 b_year = dict_get (d_year d), b_isbn = dict_get (d_isbn d),
                                 b_created_at = now\<rparr>
                 in (case (case dict_get (d_author_ids d) of
                             None \<Rightarrow> Inr []
                           | Some ids \<Rightarrow> append_authors s ids []) of
                       Inl e \<Rightarrow> ((500, ServerError), s)
                     | Inr new_authors \<Rightarrow>
                        (case add_book uow new_book new_authors s of
                           Inl e \<Rightarrow> ((500, ServerError), s)
                         | Inr s' \<Rightarrow>
                             ((201, BookSaved ''Book created successfully''
                                      (book_to_dict s' new_book)), s')))))"

text \<open>The commit of a changed book. Its row is rewritten. When the handler has
  replaced the collection \<open>book.authors\<close> by \<open>new\<close>, an association row is deleted for
  each Author that left the collection and inserted for each Author that joined it.
  Otherwise the commit raises.\<close>

definition save_book ::
  "unit_of_work \<Rightarrow> book \<Rightarrow> author list option \<Rightarrow> db \<Rightarrow> error + db" where
  "save_book uow book replaced s =
     (if \<not> storable (b_year book) then Inl OverflowError
      else if isbn_taken s (b_id book) (b_isbn book) then Inl IntegrityError
      else (case replaced of
         None \<Rightarrow>
           Inr (s\<lparr>books := map (\<lambda>b. if b_id b = b_id book then book else b) (books s)\<rparr>)
       | Some new \<Rightarrow>
           let old = book_authors s book;
               added = filter (\<lambda>a. a \<notin> set old) (remdups new);
               removed = filter (\<lambda>a. a \<notin> set new) old;
               kept = filter (\<lambda>r. r \<notin> set (map (\<lambda>a. (b_id book, a_id a)) removed))
                        (book_author s);
               rows = map (\<lambda>a. (b_id book, a_id a)) added
           in if (\<not> distinct new \<and> \<not> uow s (b_id book) new)
                 \<or> \<not> links_insertable (s\<lparr>book_author := kept\<rparr>) rows
              then Inl IntegrityError
              else Inr (s\<lparr>books := map (\<lambda>b. if b_id b = b_id book then book else b)
                                       (books s),
                          book_author := kept @ rows\<rparr>)))"

text \<open>\<open>update_book\<close>. Iterating a null \<open>author_ids\<close> raises \<open>TypeError\<close>; a null
  title violates \<open>nullable=False\<close> at commit.\<close>

definition update_book ::
  "unit_of_work \<Rightarrow> int \<Rightarrow> book_data json_body \<Rightarrow> db \<Rightarrow> response \<times> db" where
  "update_book uow i body s =
     (case get_book_row s i of
        Inl e \<Rightarrow> ((500, ServerError), s)
      | Inr None \<Rightarrow> ((404, Failure ''Book not found''), s)
      | Inr (Some book) \<Rightarrow>
         (case body of
            NotJson \<Rightarrow> ((415, Aborted), s)
          | Malformed \<Rightarrow> ((400, Aborted), s)
          | JsonNull \<Rightarrow> ((400, Failure ''No data provided''), s)
          | JsonObject d \<Rightarrow>
              if book_data_empty d then ((400, Failure ''No data provided''), s)
              else
                let title' = (case d_title d of None \<Rightarrow> Some (b_title book) | Some v \<Rightarrow> v);
                    year' = (case d_year d of None \<Rightarrow> b_year book | Some v \<Rightarrow> v);
                    isbn' = (case d_isbn d of None \<Rightarrow> b_isbn book | Some v \<Rightarrow> v);
                    authors' = (case d_author_ids d of
                                  None \<Rightarrow> Inr None
                                | Some None \<Rightarrow> Inl TypeError
                                | Some (Some ids) \<Rightarrow>
                                    (case append_authors s ids [] of
                                       Inl e \<Rightarrow> Inl e
                                     | Inr new \<Rightarrow> Inr (Some new)))
                in (case (authors', title') of
                      (Inr replaced, Some t) \<Rightarrow>
                        let book' = book\<lparr>b_title := t, b_year := year', b_isbn := isbn'\<rparr>
                        in (case save_book uow book' replaced s of
                              Inl e \<Rightarrow> ((500, ServerError), s)
                            | Inr s' \<Rightarrow>
                                ((200, BookSaved ''Book updated successfully''
                                         (book_to_dict s' book')), s'))
                    | _ \<Rightarrow> ((500, ServerError), s))))"

text \<open>\<open>delete_book\<close>: the row goes, and with it the association rows that name it.\<close>

definition delete_book :: "int \<Rightarrow> db \<Rightarrow> response \<times> db" where
  "delete_book i s =
     (case get_book_row s i of
        Inl e \<Rightarrow> ((500, ServerError), s)
      | Inr None \<Rightarrow> ((404, Failure ''Book not found''), s)
      | Inr (Some book) \<Rightarrow>
          ((200, Deleted ''Book deleted successfully''),
           s\<lparr>books := filter (\<lambda>b. b_id b \<noteq> i) (books s),
             book_author := filter (\<lambda>r. fst r \<noteq> i) (book_author s)\<rparr>))"

subsection \<open>Author routes\<close>

definition get_authors :: "db \<Rightarrow> response" where
  "get_authors s = (200, AuthorList (length (authors s)) (map (author_to_dict s) (authors s)))"

definition get_author :: "int \<Rightarrow> db \<Rightarrow> response" where
  "get_author i s =
     (case get_author_row s i of
        Inl e \<Rightarrow> (500, ServerError)
      | Inr None \<Rightarrow> (404, Failure ''Author not found'')
      | Inr (Some a) \<Rightarrow> (200, AuthorOne (author_to_dict s a)))"

text \<open>The commit of a new Author and of a changed one.\<close>

definition add_author :: "author \<Rightarrow> db \<Rightarrow> error + db" where
  "add_author new_author s =
     (if \<not> storable (a_birth_year new_author) then Inl OverflowError
      else if \<not> fits_int64 (a_id new_author) then Inl OperationalError
      else Inr (s\<lparr>authors := authors s @ [new_author]\<rparr>))"

definition save_author :: "author \<Rightarrow> db \<Rightarrow> error + db" where
  "save_author author s =
     (if \<not> storable (a_birth_year author) then Inl OverflowError
      else Inr (s\<lparr>authors := map (\<lambda>a. if a_id a = a_id author then author else a)
                               (authors s)\<rparr>))"

definition create_author :: "nat \<Rightarrow> author_data json_body \<Rightarrow> db \<Rightarrow> response \<times> db" where
  "create_author now body s =
     (case body of
        NotJson \<Rightarrow> ((415, Aborted), s)
      | Malformed \<Rightarrow> ((400, Aborted), s)
      | JsonNull \<Rightarrow> ((400, Failure ''No data provided''), s)
      | JsonObject d \<Rightarrow>
          if author_data_empty d then ((400, Failure ''No data provided''), s)
          else (case dict_get (d_name d) of
             None \<Rightarrow> ((400, Failure ''Name is required''), s)
           | Some n \<Rightarrow>
               if n = [] then ((400, Failure ''Name is required''), s)
               else
                 let new_author = \<lparr>a_id = next_id (map a_id (authors s)), a_name = n,
                                   a_birth_year = dict_get (d_birth_year d),
                                   a_country = dict_get (d_country d),
                                   a_created_at = now\<rparr>
                 in (case add_author new_author s of
                       Inl e \<Rightarrow> ((500, ServerError), s)
                     | Inr s' \<Rightarrow>
                         ((201, AuthorSaved ''Author created successfully''
                                  (author_to_dict s' new_author)), s'))))"

text \<open>\<open>update_author\<close>; a null name violates \<open>nullable=False\<close> at commit.\<close>

definition update_author :: "int \<Rightarrow> author_data json_body \<Rightarrow> db \<Rightarrow> response \<times> db" where
  "update_author i body s =
     (case get_author_row s i of
        Inl e \<Rightarrow> ((500, ServerError), s)
      | Inr None \<Rightarrow> ((404, Failure ''Author not found''), s)
      | Inr (Some author) \<Rightarrow>
         (case body of
            NotJson \<Rightarrow> ((415, Aborted), s)
          | Malformed \<Rightarrow> ((400, Aborted), s)
          | JsonNull \<Rightarrow> ((400, Failure ''No data provided''), s)
          | JsonObject d \<Rightarrow>
              if author_data_empty d then ((400, Failure ''No data provided''), s)
              else
                let name' = (case d_name d of None \<Rightarrow> Some (a_name author) | Some v \<Rightarrow> v);
                    birth_year' = (case d_birth_year d of None \<Rightarrow> a_birth_year author
                                   | Some v \<Rightarrow> v);
                    country' = (case d_country d of None \<Rightarrow> a_country author | Some v \<Rightarrow> v)
                in (case name' of
                      None \<Rightarrow> ((500, ServerError), s)
                    | Some n \<Rightarrow>
                        let author' = author\<lparr>a_name := n, a_birth_year := birth_year',
                                             a_country := country'\<rparr>
                        in (case save_author author' s of
                              Inl e \<Rightarrow> ((500, ServerError), s)
                            | Inr s' \<Rightarrow>
                                ((200, AuthorSaved ''Author updated successfully''
                                         (author_to_dict s' author')), s')))))"

text \<open>\<open>delete_author\<close>: the row goes, and with it the association rows that name it.\<close>

definition delete_author :: "int \<Rightarrow> db \<Rightarrow> response \<times> db" where
  "delete_author i s =
     (case get_author_row s i of
        Inl e \<Rightarrow> ((500, ServerError), s)
      | Inr None \<Rightarrow> ((404, Failure ''Author not found''), s)
      | Inr (Some author) \<Rightarrow>
          ((200, Deleted ''Author deleted successfully''),
           s\<lparr>authors := filter (\<lambda>a. a_id a \<noteq> i) (authors s),
             book_author := filter (\<lambda>r. snd r \<noteq> i) (book_author s)\<rparr>))"

subsection \<open>Auxiliary notions for the statements\<close>

text \<open>A query with neither of the two characters that \<open>LIKE\<close> reads as wildcards, and
  a string with no NUL character.\<close>

definition no_wildcard :: "string \<Rightarrow> bool" where
  "no_wildcard p = (CHR ''%'' \<notin> set p \<and> CHR ''_'' \<notin> set p)"

definition nul_free :: "string \<Rightarrow> bool" where
  "nul_free p = (CHR 0x00 \<notin> set p)"

text \<open>The comparison that \<open>column.ilike('%query%')\<close> comes to when SQLite accepts the
  pattern.\<close>

definition matches :: "string \<Rightarrow> string \<Rightarrow> bool" where
  "matches query col =
     pattern_compare (c_string (map lower (''%'' @ query @ ''%''))) (c_string (map lower col))"

text \<open>Case folding as Python's \<open>str.lower\<close> does it on the code points below 256: the
  ASCII letters and the Latin-1 capitals from 192 to 222, the sign 215 apart.\<close>

definition unicode_lower :: "char \<Rightarrow> char" where
  "unicode_lower c =
     (if (65 \<le> (of_char c :: nat) \<and> (of_char c :: nat) \<le> 90)
         \<or> (192 \<le> (of_char c :: nat) \<and> (of_char c :: nat) \<le> 222 \<and> (of_char c :: nat) \<noteq> 215)
      then char_of (of_char c + 32 :: nat) else c)"

text \<open>The stored Authors that a list of ids names, in the order of the list.\<close>

definition authors_named :: "db \<Rightarrow> int list \<Rightarrow> author list" where
  "authors_named s ids =
     concat (map (\<lambda>i. case author_row s i of None \<Rightarrow> [] | Some a \<Rightarrow> [a]) ids)"

text \<open>The row \<open>create_book\<close> builds from a body with a title, and the list of ids
  that the loop of \<open>create_book\<close> or \<open>update_book\<close> iterates, empty when the body holds
  none.\<close>

definition created_book :: "nat \<Rightarrow> book_data \<Rightarrow> db \<Rightarrow> book" where
  "created_book now d s =
     \<lparr>b_id = next_id (map b_id (books s)),
      b_title = (case dict_get (d_title d) of None \<Rightarrow> [] | Some t \<Rightarrow> t),
      b_year = dict_get (d_year d), b_isbn = dict_get (d_isbn d), b_created_at = now\<rparr>"

definition body_ids :: "book_data \<Rightarrow> int list" where
  "body_ids d = (case dict_get (d_author_ids d) of None \<Rightarrow> [] | Some ids \<Rightarrow> ids)"

definition created_author :: "nat \<Rightarrow> author_data \<Rightarrow> db \<Rightarrow> author" where
  "created_author now d s =
     \<lparr>a_id = next_id (map a_id (authors s)),
      a_name = (case dict_get (d_name d) of None \<Rightarrow> [] | Some n \<Rightarrow> n),
      a_birth_year = dict_get (d_birth_year d), a_country = dict_get (d_country d),
      a_created_at = now\<rparr>"

text \<open>The row \<open>update_book\<close> and \<open>update_author\<close> leave in the session: each field
  the body holds is overwritten, the others keep their value (a null title or name cannot
  be stored and is left as it was here).\<close>

definition updated_book :: "book \<Rightarrow> book_data \<Rightarrow> book" where
  "updated_book book d =
     book\<lparr>b_title := (case d_title d of Some (Some t) \<Rightarrow> t | _ \<Rightarrow> b_title book),
          b_year := (case d_year d of None \<Rightarrow> b_year book | Some v \<Rightarrow> v),
          b_isbn := (case d_isbn d of None \<Rightarrow> b_isbn book | Some v \<Rightarrow> v)\<rparr>"

definition updated_author :: "author \<Rightarrow> author_data \<Rightarrow> author" where
  "updated_author author d =
     author\<lparr>a_name := (case d_name d of Some (Some n) \<Rightarrow> n | _ \<Rightarrow> a_name author),
            a_birth_year := (case d_birth_year d of None \<Rightarrow> a_birth_year author | Some v \<Rightarrow> v),
            a_country := (case d_country d of None \<Rightarrow> a_country author | Some v \<Rightarrow> v)\<rparr>"

text \<open>The collection that the loop of \<open>update_book\<close> puts in place of \<open>book.authors\<close>,
  if the body has a list of ids.\<close>

definition replaced_authors :: "db \<Rightarrow> book_data \<Rightarrow> author list option" where
  "replaced_authors s d =
     (case d_author_ids d of
        Some (Some ids) \<Rightarrow> Some (authors_named s ids)
      | _ \<Rightarrow> None)"



text \<open>The queries whose pattern \<open>%query%\<close> SQLite accepts on the stored tables: the
  pattern has at most 50000 bytes, or there is no row to compare it with.\<close>

definition pattern_accepted :: "string \<Rightarrow> db \<Rightarrow> bool" where
  "pattern_accepted query s =
     (utf8_length query + 2 \<le> 50000 \<or> (books s = [] \<and> authors s = []))"

text \<open>What the schema promises of every stored state: ids are primary keys, an
  association row occurs once and names a stored Book and a stored Author, and a non-null
  ISBN belongs to one Book.\<close>

definition consistent :: "db \<Rightarrow> bool" where
  "consistent s =
     (distinct (map b_id (books s)) \<and> distinct (map a_id (authors s))
      \<and> distinct (book_author s)
      \<and> (\<forall>r \<in> set (book_author s).
            fst r \<in> b_id ` set (books s) \<and> snd r \<in> a_id ` set (authors s))
      \<and> (\<forall>b \<in> set (books s). \<forall>b' \<in> set (books s).
            b_isbn b \<noteq> None \<longrightarrow> b_isbn b = b_isbn b' \<longrightarrow> b_id b = b_id b'))"

text \<open>A small store for concrete instances: two Authors, three Books, one of them
  without ISBN, and the Orwell titles credited to Orwell.\<close>

definition sample_db :: db where
  "sample_db =
     \<lparr>books =
        [\<lparr>b_id = 1, b_title = ''Harry Potter'', b_year = Some 1997,
          b_isbn = Some ''978-0747532743'', b_created_at = 0\<rparr>,
         \<lparr>b_id = 2, b_title = ''1984'', b_year = Some 1949,
          b_isbn = Some ''978-0451524935'', b_created_at = 0\<rparr>,
         \<lparr>b_id = 3, b_title = ''Animal Farm'', b_year = Some 1945,
          b_isbn = None, b_created_at = 0\<rparr>],
      authors =
        [\<lparr>a_id = 1, a_name = ''J.K. Rowling'', a_birth_year = Some 1965,
          a_country = Some ''United Kingdom'', a_created_at = 0\<rparr>,
         \<lparr>a_id = 2, a_name = ''George Orwell'', a_birth_year = Some 1903,
          a_country = Some ''United Kingdom'', a_created_at = 0\<rparr>],
      book_author = [(1, 1), (2, 2), (3, 2)]\<rparr>"

text \<open>A store with a title in capitals that ends in the letter E acute (code point
  201), and a title with a NUL character in it.\<close>

definition latin_db :: db where
  "latin_db =
     \<lparr>books =
        [\<lparr>b_id = 1, b_title = ''CAF'' @ [CHR 0xC9], b_year = None, b_isbn = None,
          b_created_at = 0\<rparr>,
         \<lparr>b_id = 2, b_title = ''x'' @ [CHR 0x00] @ ''farm'', b_year = None, b_isbn = None,
          b_created_at = 0\<rparr>],
      authors = [],
      book_author = []\<rparr>"

text \<open>Queries for concrete instances: \<open>caf\<close> followed by the small e acute (code point
  233), \<open>m\<close> and \<open>z\<close> around a NUL character, and 49999 times the letter \<open>a\<close>.\<close>

definition cafe_query :: string where
  "cafe_query = ''caf'' @ [CHR 0xE9]"

definition nul_query :: string where
  "nul_query = ''m'' @ [CHR 0x00] @ ''z''"

definition long_query :: string where
  "long_query = replicate 49999 (CHR ''a'')"

text \<open>A unit of work for concrete instances; none of them asks it anything.\<close>

definition any_uow :: unit_of_work where
  "any_uow s i new = False"

text \<open>Request bodies for concrete instances.\<close>

definition emma :: book_data where
  "emma = \<lparr>d_title = Some (Some ''Emma''), d_year = Some (Some 1815), d_isbn = Some None,
           d_author_ids = Some (Some [2, 7]), d_other = False\<rparr>"

definition austen :: author_data where
  "austen = \<lparr>d_name = Some (Some ''Jane Austen''), d_birth_year = Some (Some 1775),
             d_country = None, d_more = False\<rparr>"








definition rowling_and_ghost :: book_data where
  "rowling_and_ghost = \<lparr>d_title = None, d_year = None, d_isbn = None,
                        d_author_ids = Some (Some [1, 7]), d_other = False\<rparr>"

definition rowling_and_huge :: book_data where
  "rowling_and_huge = \<lparr>d_title = Some (Some ''Emma''), d_year = None, d_isbn = None,
                       d_author_ids = Some (Some [1, 2 ^ 63]), d_other = False\<rparr>"

definition isbn_of_1984 :: book_data where
  "isbn_of_1984 = \<lparr>d_title = None, d_year = None, d_isbn = Some (Some ''978-0451524935''),
                   d_author_ids = None, d_other = False\<rparr>"

definition blank_isbn :: book_data where
  "blank_isbn = \<lparr>d_title = Some (Some ''Untitled''), d_year = None, d_isbn = Some (Some []),
                 d_author_ids = None, d_other = False\<rparr>"

section \<open>Properties\<close>

subsection \<open>Strings\<close>

lemma strip_empty_iff: "strip q = [] \<longleftrightarrow> list_all isspace q"
proof -
  have "dropWhile isspace (rev (dropWhile isspace q)) = [] \<longleftrightarrow> dropWhile isspace q = []"
  proof
    assume h: "dropWhile isspace (rev (dropWhile isspace q)) = []"
    show "dropWhile isspace q = []"
    proof (rule ccontr)
      assume ne: "dropWhile isspace q \<noteq> []"
      then have "\<not> isspace (hd (dropWhile isspace q))" by (rule hd_dropWhile)
      moreover have "hd (dropWhile isspace q) \<in> set (rev (dropWhile isspace q))"
        using ne by simp
      moreover from h have "\<forall>x\<in>set (rev (dropWhile isspace q)). isspace x"
        by (simp only: dropWhile_eq_Nil_conv)
      ultimately show False by blast
    qed
  next
    assume "dropWhile isspace q = []"
    then show "dropWhile isspace (rev (dropWhile isspace q)) = []"
      by (simp del: dropWhile_eq_Nil_conv)
  qed
  then have "strip q = [] \<longleftrightarrow> dropWhile isspace q = []"
    by (simp add: strip_def)
  then show ?thesis
    by (simp only: dropWhile_eq_Nil_conv list_all_iff)
qed

lemma lower_idem: "lower (lower c) = lower c"
  by (auto simp: lower_def)

lemma lower_eq_fixed:
  assumes "lower c = k" and "\<not> (97 \<le> (of_char k :: nat) \<and> (of_char k :: nat) \<le> 122)"
  shows "c = k"
proof (cases "65 \<le> (of_char c :: nat) \<and> (of_char c :: nat) \<le> 90")
  case True
  with assms(1) have "char_of (of_char c + 32 :: nat) = k" by (simp add: lower_def)
  then have "(of_char (char_of (of_char c + 32 :: nat)) :: nat) = of_char k" by simp
  with True assms(2) show ?thesis by simp
next
  case False
  with assms(1) show ?thesis by (simp add: lower_def)
qed

lemma lower_percent: "lower c = CHR ''%'' \<longleftrightarrow> c = CHR ''%''"
proof
  assume "lower c = CHR ''%''"
  then show "c = CHR ''%''" by (rule lower_eq_fixed) simp
next
  assume "c = CHR ''%''"
  then show "lower c = CHR ''%''" by (simp add: lower_def)
qed

lemma lower_underscore: "lower c = CHR ''_'' \<longleftrightarrow> c = CHR ''_''"
proof
  assume "lower c = CHR ''_''"
  then show "c = CHR ''_''" by (rule lower_eq_fixed) simp
next
  assume "c = CHR ''_''"
  then show "lower c = CHR ''_''" by (simp add: lower_def)
qed

lemma no_wildcard_lower: "no_wildcard (map lower q) \<longleftrightarrow> no_wildcard q"
proof -
  have "CHR ''%'' \<in> lower ` set q \<longleftrightarrow> CHR ''%'' \<in> set q"
    by (metis (no_types, lifting) image_iff lower_percent)
  moreover have "CHR ''_'' \<in> lower ` set q \<longleftrightarrow> CHR ''_'' \<in> set q"
    by (metis (no_types, lifting) image_iff lower_underscore)
  ultimately show ?thesis by (simp add: no_wildcard_def)
qed

subsection \<open>LIKE against substring containment\<close>

lemma pc_percent_all: "pattern_compare [CHR ''%''] t"
  by (induction t) auto

text \<open>A leading \<open>%\<close> lets the rest of the pattern start anywhere in the text.\<close>

lemma pc_percent_iff: "pattern_compare (CHR ''%'' # ps) t \<longleftrightarrow> (\<exists>u v. t = u @ v \<and> pattern_compare ps v)"
proof (induction t)
  case Nil
  then show ?case by simp
next
  case (Cons c cs)
  show ?case
  proof
    assume "pattern_compare (CHR ''%'' # ps) (c # cs)"
    then consider "pattern_compare ps (c # cs)" | "pattern_compare (CHR ''%'' # ps) cs" by auto
    then show "\<exists>u v. c # cs = u @ v \<and> pattern_compare ps v"
    proof cases
      case 1
      then have "c # cs = [] @ (c # cs) \<and> pattern_compare ps (c # cs)" by simp
      then show ?thesis by blast
    next
      case 2
      with Cons.IH obtain u v where "cs = u @ v" "pattern_compare ps v" by blast
      then have "c # cs = (c # u) @ v \<and> pattern_compare ps v" by simp
      then show ?thesis by blast
    qed
  next
    assume "\<exists>u v. c # cs = u @ v \<and> pattern_compare ps v"
    then obtain u v where uv: "c # cs = u @ v" "pattern_compare ps v" by blast
    show "pattern_compare (CHR ''%'' # ps) (c # cs)"
    proof (cases u)
      case Nil
      with uv have "pattern_compare ps (c # cs)" by simp
      then show ?thesis by simp
    next
      case (Cons x xs)
      with uv have "cs = xs @ v" by simp
      with uv Cons.IH have "pattern_compare (CHR ''%'' # ps) cs" by blast
      then show ?thesis by simp
    qed
  qed
qed

text \<open>Without wildcards, a pattern closed by \<open>%\<close> matches the texts it is a prefix of,
  up to case.\<close>

lemma pc_plain_prefix:
  "no_wildcard p \<Longrightarrow>
     pattern_compare (p @ [CHR ''%'']) t \<longleftrightarrow> (\<exists>u v. t = u @ v \<and> map lower u = map lower p)"
proof (induction p arbitrary: t)
  case Nil
  then show ?case by (simp add: pc_percent_all)
next
  case (Cons x xs)
  then have px: "x \<noteq> CHR ''%''" "x \<noteq> CHR ''_''" and pxs: "no_wildcard xs"
    by (auto simp: no_wildcard_def)
  show ?case
  proof (cases t)
    case Nil
    then show ?thesis using px by simp
  next
    case (Cons c cs)
    have "pattern_compare ((x # xs) @ [CHR ''%'']) (c # cs)
            \<longleftrightarrow> lower x = lower c \<and> pattern_compare (xs @ [CHR ''%'']) cs"
      using px by simp
    also have "\<dots> \<longleftrightarrow> lower x = lower c \<and> (\<exists>u v. cs = u @ v \<and> map lower u = map lower xs)"
      using Cons.IH[OF pxs] by simp
    also have "\<dots> \<longleftrightarrow> (\<exists>u v. c # cs = u @ v \<and> map lower u = map lower (x # xs))"
    proof
      assume "lower x = lower c \<and> (\<exists>u v. cs = u @ v \<and> map lower u = map lower xs)"
      then obtain u v where "lower x = lower c" "cs = u @ v" "map lower u = map lower xs"
        by blast
      then have "c # cs = (c # u) @ v \<and> map lower (c # u) = map lower (x # xs)" by simp
      then show "\<exists>u v. c # cs = u @ v \<and> map lower u = map lower (x # xs)" by blast
    next
      assume "\<exists>u v. c # cs = u @ v \<and> map lower u = map lower (x # xs)"
      then obtain u v where uv: "c # cs = u @ v" "map lower u = map lower (x # xs)" by blast
      then obtain y ys where u: "u = y # ys" by (cases u) auto
      with uv have "lower x = lower c" "cs = ys @ v" "map lower ys = map lower xs" by auto
      then show "lower x = lower c \<and> (\<exists>u v. cs = u @ v \<and> map lower u = map lower xs)"
        by blast
    qed
    finally show ?thesis using Cons by simp
  qed
qed

text \<open>Any pattern closed by \<open>%\<close> matches every text that starts with the pattern
  itself, wildcards read literally.\<close>

lemma pc_self_prefix: "pattern_compare (p @ [CHR ''%'']) (p @ r)"
proof (induction p)
  case Nil
  show ?case by (simp add: pc_percent_all)
next
  case (Cons x xs)
  show ?case
  proof (cases "x = CHR ''%''")
    case True
    have "xs @ r = [] @ (xs @ r) \<and> pattern_compare (xs @ [CHR ''%'']) (xs @ r)"
      using Cons.IH by simp
    then have "pattern_compare (CHR ''%'' # xs @ [CHR ''%'']) (xs @ r)"
      unfolding pc_percent_iff by blast
    with True show ?thesis by simp
  next
    case False
    with Cons.IH show ?thesis by simp
  qed
qed


lemma lower_nul: "lower c = CHR 0x00 \<longleftrightarrow> c = CHR 0x00"
proof
  assume "lower c = CHR 0x00"
  then show "c = CHR 0x00" by (rule lower_eq_fixed) simp
next
  assume "c = CHR 0x00"
  then show "lower c = CHR 0x00" by (simp add: lower_def)
qed

lemma c_string_lower: "c_string (map lower t) = map lower (c_string t)"
  unfolding c_string_def by (induction t) (simp_all add: lower_nul)

lemma c_string_nul_free: "nul_free t \<Longrightarrow> c_string t = t"
  unfolding c_string_def nul_free_def by (induction t) auto

lemma nul_free_lower: "nul_free (map lower q) \<longleftrightarrow> nul_free q"
proof -
  have "CHR 0x00 \<in> lower ` set q \<longleftrightarrow> CHR 0x00 \<in> set q"
    by (metis (no_types, lifting) image_iff lower_nul)
  then show ?thesis by (simp add: nul_free_def)
qed

lemma utf8_length_lower: "utf8_length (map lower t) = utf8_length t"
proof -
  have "((of_char (lower c) :: nat) < 128) = ((of_char c :: nat) < 128)" for c
    by (auto simp: lower_def)
  then show ?thesis by (simp add: utf8_length_def comp_def)
qed

lemma utf8_length_pattern: "utf8_length (''%'' @ q @ ''%'') = utf8_length q + 2"
  by (simp add: utf8_length_def)

lemma utf8_length_replicate_ascii:
  "(of_char c :: nat) < 128 \<Longrightarrow> utf8_length (replicate n c) = n"
  by (induction n) (simp_all add: utf8_length_def)

lemma utf8_length_le: "length t \<le> utf8_length t"
  unfolding utf8_length_def by (induction t) auto

lemma filter_all_total:
  assumes "\<And>x. x \<in> set xs \<Longrightarrow> p x = Inr (f x)"
  shows "filter_all p xs = Inr (filter f xs)"
  using assms by (induction xs) simp_all

lemma filter_all_raises:
  assumes "xs \<noteq> []" "\<And>x. x \<in> set xs \<Longrightarrow> p x = Inl e"
  shows "filter_all p xs = Inl e"
  using assms by (cases xs) simp_all

lemma ilike_accepted:
  assumes "utf8_length q + 2 \<le> 50000"
  shows "ilike t (''%'' @ q @ ''%'') = Inr (matches q t)"
proof -
  have "utf8_length (map lower (''%'' @ q @ ''%'')) = utf8_length q + 2"
    by (simp only: utf8_length_lower utf8_length_pattern)
  with assms have "\<not> 50000 < utf8_length (map lower (''%'' @ q @ ''%''))" by simp
  then show ?thesis by (simp only: ilike_def like_def matches_def if_False)
qed

lemma ilike_refused:
  assumes "50000 < utf8_length q + 2"
  shows "ilike t (''%'' @ q @ ''%'') = Inl OperationalError"
proof -
  have "utf8_length (map lower (''%'' @ q @ ''%'')) = utf8_length q + 2"
    by (simp only: utf8_length_lower utf8_length_pattern)
  with assms have "50000 < utf8_length (map lower (''%'' @ q @ ''%''))" by simp
  then show ?thesis by (simp only: ilike_def like_def if_True)
qed

lemma books_by_title_accepted:
  assumes "pattern_accepted q s"
  shows "books_by_title q s = Inr (filter (\<lambda>b. matches q (b_title b)) (books s))"
proof (cases "utf8_length q + 2 \<le> 50000")
  case True
  show ?thesis unfolding books_by_title_def
    by (rule filter_all_total) (rule ilike_accepted[OF True])
next
  case False
  with assms have "books s = []" by (simp add: pattern_accepted_def)
  then show ?thesis by (simp add: books_by_title_def)
qed

lemma authors_by_name_accepted:
  assumes "pattern_accepted q s"
  shows "authors_by_name q s = Inr (filter (\<lambda>a. matches q (a_name a)) (authors s))"
proof (cases "utf8_length q + 2 \<le> 50000")
  case True
  show ?thesis unfolding authors_by_name_def
    by (rule filter_all_total) (rule ilike_accepted[OF True])
next
  case False
  with assms have "authors s = []" by (simp add: pattern_accepted_def)
  then show ?thesis by (simp add: authors_by_name_def)
qed

lemma books_by_title_refused:
  assumes "50000 < utf8_length q + 2" "books s \<noteq> []"
  shows "books_by_title q s = Inl OperationalError"
  unfolding books_by_title_def
  by (rule filter_all_raises[OF assms(2)]) (rule ilike_refused[OF assms(1)])

lemma authors_by_name_refused:
  assumes "50000 < utf8_length q + 2" "authors s \<noteq> []"
  shows "authors_by_name q s = Inl OperationalError"
  unfolding authors_by_name_def
  by (rule filter_all_raises[OF assms(2)]) (rule ilike_refused[OF assms(1)])

lemma books_by_title_empty: "books s = [] \<Longrightarrow> books_by_title q s = Inr []"
  by (simp add: books_by_title_def)

lemma authors_by_name_empty: "authors s = [] \<Longrightarrow> authors_by_name q s = Inr []"
  by (simp add: authors_by_name_def)

lemma matches_unfold:
  assumes "nul_free q"
  shows "matches q t
    \<longleftrightarrow> pattern_compare (CHR ''%'' # (map lower q @ [CHR ''%''])) (map lower (c_string t))"
proof -
  have "nul_free (''%'' @ q @ ''%'')" using assms by (simp add: nul_free_def)
  then have "c_string (''%'' @ q @ ''%'') = ''%'' @ q @ ''%''" by (rule c_string_nul_free)
  then have "c_string (map lower (''%'' @ q @ ''%'')) = map lower (''%'' @ q @ ''%'')"
    by (simp only: c_string_lower)
  moreover have "map lower (''%'' @ q @ ''%'') = CHR ''%'' # (map lower q @ [CHR ''%''])"
    by (simp add: lower_def)
  ultimately show ?thesis by (simp only: matches_def c_string_lower)
qed

lemma sublist_imp_matches:
  assumes "nul_free q" "sublist (map lower q) (map lower (c_string t))"
  shows "matches q t"
proof -
  from assms(2) obtain u w where t: "map lower (c_string t) = u @ map lower q @ w"
    by (auto simp: sublist_def)
  have "pattern_compare (map lower q @ [CHR ''%'']) (map lower q @ w)" by (rule pc_self_prefix)
  with t have "\<exists>u v. map lower (c_string t) = u @ v \<and> pattern_compare (map lower q @ [CHR ''%'']) v"
    by blast
  then have "pattern_compare (CHR ''%'' # (map lower q @ [CHR ''%''])) (map lower (c_string t))"
    by (simp only: pc_percent_iff)
  then show ?thesis by (simp only: matches_unfold[OF assms(1)])
qed

lemma matches_plain_sublist:
  assumes "no_wildcard q" "nul_free q"
  shows "matches q t \<longleftrightarrow> sublist (map lower q) (map lower (c_string t))"
proof
  assume "matches q t"
  then have "pattern_compare (CHR ''%'' # (map lower q @ [CHR ''%''])) (map lower (c_string t))"
    by (simp only: matches_unfold[OF assms(2)])
  then obtain u v where t: "map lower (c_string t) = u @ v"
      and v: "pattern_compare (map lower q @ [CHR ''%'']) v"
    unfolding pc_percent_iff by blast
  have "no_wildcard (map lower q)" using assms by (simp add: no_wildcard_lower)
  from pc_plain_prefix[OF this] v obtain m w
    where vw: "v = m @ w" and m: "map lower m = map lower (map lower q)"
    by blast
  have "map lower (map lower (c_string t)) = map lower (c_string t)" by (simp add: lower_idem)
  with t vw have "map lower u @ map lower m @ map lower w = u @ m @ w" by simp
  then have "map lower m = m"
    by (metis append_eq_append_conv length_map)
  with m have "m = map lower q" by (simp add: lower_idem)
  with t vw show "sublist (map lower q) (map lower (c_string t))" by (auto simp: sublist_def)
next
  assume "sublist (map lower q) (map lower (c_string t))"
  then show "matches q t" by (rule sublist_imp_matches[OF assms(2)])
qed

subsection \<open>Search\<close>

lemma set_author_books:
  "set (author_books s a) = {b \<in> set (books s). (b_id b, a_id a) \<in> set (book_author s)}"
  by (auto simp: author_books_def)

lemma set_book_authors:
  "set (book_authors s b) = {a \<in> set (authors s). (b_id b, a_id a) \<in> set (book_author s)}"
  by (auto simp: book_authors_def)

lemma search_all_blank:
  "strip q = [] \<Longrightarrow> search_all q s = (400, Failure ''Search query is required'')"
  by (simp add: search_all_def)

lemma search_all_ok:
  assumes "strip q \<noteq> []" "books_by_title (strip q) s = Inr B1"
    "authors_by_name (strip q) s = Inr A1"
  shows "search_all q s =
    (200, SearchResult (strip q)
       (map (book_to_dict s) (remdups (B1 @ concat (map (author_books s) A1))))
       (map (author_to_dict s) (remdups (A1 @ concat (map (book_authors s) B1))))
       (length (remdups (B1 @ concat (map (author_books s) A1))))
       (length (remdups (A1 @ concat (map (book_authors s) B1)))))"
  using assms by (simp add: search_all_def Let_def)

lemma search_all_refused:
  assumes "strip q \<noteq> []" "\<not> pattern_accepted (strip q) s"
  shows "search_all q s = (500, ServerError)"
proof -
  from assms(2) have long: "50000 < utf8_length (strip q) + 2"
    and rows: "books s \<noteq> [] \<or> authors s \<noteq> []"
    by (auto simp: pattern_accepted_def)
  show ?thesis
  proof (cases "books s = []")
    case False
    from books_by_title_refused[OF long False] assms(1) show ?thesis
      by (simp add: search_all_def)
  next
    case True
    with rows have "authors s \<noteq> []" by simp
    from authors_by_name_refused[OF long this] books_by_title_empty[OF True] assms(1)
    show ?thesis by (simp add: search_all_def)
  qed
qed

lemma strip_replicate:
  assumes "\<not> isspace c"
  shows "strip (replicate n c) = replicate n c"
proof -
  have "dropWhile isspace (replicate n c) = replicate n c"
    using assms by (cases n) simp_all
  then show ?thesis by (simp add: strip_def)
qed

lemma replicate_facts:
  assumes "0 < n" "\<not> isspace c" "c \<noteq> CHR 0x00" "c \<noteq> CHR ''%''" "c \<noteq> CHR ''_''"
  shows "\<not> list_all isspace (replicate n c)" "nul_free (replicate n c)"
    "no_wildcard (replicate n c)"
  using assms by (auto simp: list_all_iff nul_free_def no_wildcard_def)

lemma long_query_facts:
  "strip long_query = long_query" "utf8_length long_query = 49999"
  "\<not> list_all isspace long_query" "nul_free long_query" "no_wildcard long_query"
proof -
  have ns: "\<not> isspace (CHR ''a'')" by (simp add: isspace_def)
  have pos: "0 < (49999 :: nat)" by simp
  show "strip long_query = long_query"
    unfolding long_query_def by (rule strip_replicate[OF ns])
  show "utf8_length long_query = 49999"
    unfolding long_query_def by (rule utf8_length_replicate_ascii) simp
  show "\<not> list_all isspace long_query"
    unfolding long_query_def by (rule replicate_facts(1)[OF pos ns]) simp_all
  show "nul_free long_query"
    unfolding long_query_def by (rule replicate_facts(2)[OF pos ns]) simp_all
  show "no_wildcard long_query"
    unfolding long_query_def by (rule replicate_facts(3)[OF pos ns]) simp_all
qed

lemma sample_not_empty: "books sample_db \<noteq> []" "authors sample_db \<noteq> []"
  by (simp_all add: sample_db_def)

lemma long_query_refused: "\<not> pattern_accepted (strip long_query) sample_db"
  unfolding pattern_accepted_def long_query_facts using sample_not_empty by simp

lemma sample_strip:
  "strip ''orwell'' = ''orwell''" "strip ''  '' = []" "strip ''_'' = ''_''"
  "strip ''farm'' = ''farm''" "strip cafe_query = cafe_query" "strip nul_query = nul_query"
  by code_simp+

lemma sample_accepted:
  "pattern_accepted ''orwell'' s" "pattern_accepted ''farm'' s" "pattern_accepted ''_'' s"
  "pattern_accepted cafe_query s" "pattern_accepted nul_query s"
  by (simp_all add: pattern_accepted_def utf8_length_def cafe_query_def nul_query_def)

lemma sample_matches:
  "filter (\<lambda>b. matches ''orwell'' (b_title b)) (books sample_db) = []"
  "filter (\<lambda>b. matches ''_'' (b_title b)) (books sample_db) = books sample_db"
  "filter (\<lambda>b. matches ''farm'' (b_title b)) (books sample_db) = [books sample_db ! 2]"
  "filter (\<lambda>b. matches nul_query (b_title b)) (books sample_db) = [books sample_db ! 2]"
  "filter (\<lambda>b. matches cafe_query (b_title b)) (books latin_db) = []"
  "filter (\<lambda>b. matches ''farm'' (b_title b)) (books latin_db) = []"
  "filter (\<lambda>a. matches ''orwell'' (a_name a)) (authors sample_db) = [authors sample_db ! 1]"
  "filter (\<lambda>a. matches ''farm'' (a_name a)) (authors sample_db) = []"
  by code_simp+

lemma sample_books_orwell: "books_by_title ''orwell'' sample_db = Inr []"
  using books_by_title_accepted[OF sample_accepted(1), of sample_db]
  by (simp only: sample_matches)

lemma sample_books_underscore: "books_by_title ''_'' sample_db = Inr (books sample_db)"
  using books_by_title_accepted[OF sample_accepted(3), of sample_db]
  by (simp only: sample_matches)

lemma sample_books_farm: "books_by_title ''farm'' sample_db = Inr [books sample_db ! 2]"
  using books_by_title_accepted[OF sample_accepted(2), of sample_db]
  by (simp only: sample_matches)

lemma sample_books_nul: "books_by_title nul_query sample_db = Inr [books sample_db ! 2]"
  using books_by_title_accepted[OF sample_accepted(5), of sample_db]
  by (simp only: sample_matches)

lemma sample_books_cafe: "books_by_title cafe_query latin_db = Inr []"
  using books_by_title_accepted[OF sample_accepted(4), of latin_db]
  by (simp only: sample_matches)

lemma sample_books_latin_farm: "books_by_title ''farm'' latin_db = Inr []"
  using books_by_title_accepted[OF sample_accepted(2), of latin_db]
  by (simp only: sample_matches)

lemma sample_books_long: "books_by_title long_query sample_db = Inl OperationalError"
  by (rule books_by_title_refused) (simp_all add: long_query_facts sample_not_empty)

lemmas sample_books_by_title = sample_books_orwell sample_books_underscore sample_books_farm
  sample_books_nul sample_books_cafe sample_books_latin_farm sample_books_long

lemma sample_authors_orwell: "authors_by_name ''orwell'' sample_db = Inr [authors sample_db ! 1]"
  using authors_by_name_accepted[OF sample_accepted(1), of sample_db]
  by (simp only: sample_matches)

lemma sample_authors_farm: "authors_by_name ''farm'' sample_db = Inr []"
  using authors_by_name_accepted[OF sample_accepted(2), of sample_db]
  by (simp only: sample_matches)

lemmas sample_authors_by_name = sample_authors_orwell sample_authors_farm

text \<open>C7, as the claim states it, fails: a query of 49999 letters is not blank, but its
  pattern has 50001 bytes, the Book query raises on the sample store, and the answer is
  500.\<close>

theorem search_long_query_counterexample:
  "\<not> list_all isspace long_query
   \<and> search_all long_query sample_db = (500, ServerError)
   \<and> fst (search_all long_query sample_db) \<noteq> 200
   \<and> \<not> success (snd (search_all long_query sample_db))"
proof -
  have ne: "strip long_query \<noteq> []"
    using long_query_facts(3) by (simp add: strip_empty_iff)
  have "search_all long_query sample_db = (500, ServerError)"
    by (rule search_all_refused[OF ne long_query_refused])
  with long_query_facts(3) show ?thesis by simp
qed

text \<open>C7, amended. \<open>GET /api/search\<close> answers an empty or whitespace-only query with
  status 400, \<open>success\<close> false and an error string, never with a result set; every other
  query whose pattern SQLite accepts (at most 50000 bytes, or no row stored) is answered
  with status 200 and \<open>success\<close> true.\<close>

theorem search_rejects_blank_query:
  "(list_all isspace q \<longrightarrow>
      search_all q s = (400, Failure ''Search query is required'')
      \<and> \<not> success (snd (search_all q s))
      \<and> error_of (snd (search_all q s)) = Some ''Search query is required'')
   \<and> (\<not> list_all isspace q \<and> pattern_accepted (strip q) s \<longrightarrow>
      fst (search_all q s) = 200 \<and> success (snd (search_all q s)))"
proof (cases "strip q = []")
  case True
  then show ?thesis using search_all_blank[OF True, of s] by (simp add: strip_empty_iff)
next
  case False
  have "fst (search_all q s) = 200 \<and> success (snd (search_all q s))"
    if "pattern_accepted (strip q) s"
    using search_all_ok[OF False books_by_title_accepted[OF that] authors_by_name_accepted[OF that]]
    by simp
  with False show ?thesis by (simp add: strip_empty_iff)
qed

theorem search_rejects_blank_query_witness:
  "search_all ''  '' sample_db = (400, Failure ''Search query is required'')
   \<and> \<not> success (snd (search_all ''  '' sample_db))
   \<and> fst (search_all ''orwell'' sample_db) = 200
   \<and> success (snd (search_all ''orwell'' sample_db))"
proof -
  have b: "list_all isspace ''  ''" by (simp add: isspace_def)
  have n: "\<not> list_all isspace ''orwell'' \<and> pattern_accepted (strip ''orwell'') sample_db"
    using sample_accepted(1) by (simp add: isspace_def sample_strip)
  from search_rejects_blank_query[of "''  ''" sample_db] b
  have 1: "search_all ''  '' sample_db = (400, Failure ''Search query is required'')
      \<and> \<not> success (snd (search_all ''  '' sample_db))" by blast
  from search_rejects_blank_query[of "''orwell''" sample_db] n
  have 2: "fst (search_all ''orwell'' sample_db) = 200
      \<and> success (snd (search_all ''orwell'' sample_db))" by blast
  from 1 2 show ?thesis by blast
qed

lemma distinct_ids_of_rows:
  assumes "distinct (map k table)" "distinct xs" "set xs \<subseteq> set table"
  shows "distinct (map k xs)"
proof -
  from assms(1) have "inj_on k (set table)" by (simp add: distinct_map)
  with assms(3) have "inj_on k (set xs)" by (metis inj_on_subset)
  with assms(2) show ?thesis by (simp add: distinct_map)
qed

text \<open>C1, as the claim states it, fails: for the query of 49999 letters the Book query
  raises on the sample store, so there is no B1 and no result set; the answer is 500.\<close>

theorem search_no_result_set_counterexample:
  "strip long_query \<noteq> []
   \<and> books_by_title (strip long_query) sample_db = Inl OperationalError
   \<and> snd (search_all long_query sample_db) = ServerError"
proof -
  have ne: "strip long_query \<noteq> []"
    using long_query_facts(3) by (simp add: strip_empty_iff)
  have "search_all long_query sample_db = (500, ServerError)"
    by (rule search_all_refused[OF ne long_query_refused])
  with ne sample_books_long show ?thesis by (simp add: long_query_facts(1))
qed

text \<open>C1, amended. For a query that is not blank and whose pattern SQLite accepts (at
  most 50000 bytes, or no row stored), both queries return, the Books whose title matches
  (B1) and the Authors whose name matches (A1); the books returned are B1 together with
  every Book associated with an Author of A1, the authors returned are A1 together with
  every Author associated with a Book of B1, no entity is listed twice (no id, where ids
  are primary keys), and the two counts are the sizes of these sets. So an Author matched
  by name comes with every Book credited to them.\<close>

theorem search_result_sets:
  assumes "strip q \<noteq> []" and "pattern_accepted (strip q) s"
  shows "\<exists>B1 A1 bs as.
     books_by_title (strip q) s = Inr B1 \<and> authors_by_name (strip q) s = Inr A1
     \<and> search_all q s =
       (200, SearchResult (strip q) (map (book_to_dict s) bs) (map (author_to_dict s) as)
               (card (set bs)) (card (set as)))
     \<and> distinct bs \<and> distinct as
     \<and> set bs = set B1 \<union> {b \<in> set (books s). \<exists>a \<in> set A1.
                                            (b_id b, a_id a) \<in> set (book_author s)}
     \<and> set as = set A1 \<union> {a \<in> set (authors s). \<exists>b \<in> set B1.
                                              (b_id b, a_id a) \<in> set (book_author s)}
     \<and> (\<forall>a \<in> set A1. a \<in> set as \<and> set (author_books s a) \<subseteq> set bs)
     \<and> (distinct (map b_id (books s)) \<longrightarrow> distinct (map bd_id (map (book_to_dict s) bs)))
     \<and> (distinct (map a_id (authors s)) \<longrightarrow> distinct (map ad_id (map (author_to_dict s) as)))"
proof -
  let ?B1 = "filter (\<lambda>b. matches (strip q) (b_title b)) (books s)"
  let ?A1 = "filter (\<lambda>a. matches (strip q) (a_name a)) (authors s)"
  let ?bs = "remdups (?B1 @ concat (map (author_books s) ?A1))"
  let ?as = "remdups (?A1 @ concat (map (book_authors s) ?B1))"
  have b1: "books_by_title (strip q) s = Inr ?B1"
    by (rule books_by_title_accepted[OF assms(2)])
  have a1: "authors_by_name (strip q) s = Inr ?A1"
    by (rule authors_by_name_accepted[OF assms(2)])
  have 1: "search_all q s =
       (200, SearchResult (strip q) (map (book_to_dict s) ?bs) (map (author_to_dict s) ?as)
               (card (set ?bs)) (card (set ?as)))"
    using search_all_ok[OF assms(1) b1 a1] by (simp only: length_remdups_card_conv set_remdups)
  have 2: "set ?bs = set ?B1 \<union> {b \<in> set (books s). \<exists>a \<in> set ?A1.
                                    (b_id b, a_id a) \<in> set (book_author s)}"
    by (auto simp: set_author_books)
  have 3: "set ?as = set ?A1 \<union> {a \<in> set (authors s). \<exists>b \<in> set ?B1.
                                    (b_id b, a_id a) \<in> set (book_author s)}"
    by (auto simp: set_book_authors)
  have 4: "\<forall>a \<in> set ?A1. a \<in> set ?as \<and> set (author_books s a) \<subseteq> set ?bs"
    by auto
  have d: "distinct ?bs" "distinct ?as" by simp_all
  have subb: "set ?bs \<subseteq> set (books s)"
    unfolding 2 by auto
  have suba: "set ?as \<subseteq> set (authors s)"
    unfolding 3 by auto
  have idb: "map bd_id (map (book_to_dict s) ?bs) = map b_id ?bs"
    by (simp add: book_to_dict_def)
  have ida: "map ad_id (map (author_to_dict s) ?as) = map a_id ?as"
    by (simp add: author_to_dict_def)
  have 5: "distinct (map b_id (books s)) \<longrightarrow> distinct (map bd_id (map (book_to_dict s) ?bs))"
    unfolding idb using distinct_ids_of_rows[OF _ d(1) subb] by blast
  have 6: "distinct (map a_id (authors s)) \<longrightarrow> distinct (map ad_id (map (author_to_dict s) ?as))"
    unfolding ida using distinct_ids_of_rows[OF _ d(2) suba] by blast
  show ?thesis
    by (rule exI[of _ ?B1], rule exI[of _ ?A1], rule exI[of _ ?bs], rule exI[of _ ?as],
        intro conjI) (rule b1 a1 1 2 3 4 5 6 d)+
qed

lemma sample_orwell_books:
  "set ([] :: book list)
     \<union> {b \<in> set (books sample_db). \<exists>a \<in> set [authors sample_db ! 1].
            (b_id b, a_id a) \<in> set (book_author sample_db)}
   = {books sample_db ! 1, books sample_db ! 2}"
  by code_simp

lemma sample_orwell_authors:
  "set [authors sample_db ! 1]
     \<union> {a \<in> set (authors sample_db). \<exists>b \<in> set ([] :: book list).
            (b_id b, a_id a) \<in> set (book_author sample_db)}
   = {authors sample_db ! 1}"
  by code_simp

lemma sample_orwell_card:
  "card {books sample_db ! 1, books sample_db ! 2} = 2" "card {authors sample_db ! 1} = 1"
  by code_simp+

text \<open>The spec's example: searching \<open>orwell\<close> finds one Author and the two Books
  credited to him, neither of which has the query in its title.\<close>

theorem search_result_sets_witness:
  "\<exists>bs as.
     search_all ''orwell'' sample_db =
       (200, SearchResult ''orwell'' (map (book_to_dict sample_db) bs)
               (map (author_to_dict sample_db) as) 2 1)
     \<and> set bs = {books sample_db ! 1, books sample_db ! 2}
     \<and> set as = {authors sample_db ! 1}"
proof -
  have ne: "strip ''orwell'' \<noteq> []" by (simp add: sample_strip)
  have ac: "pattern_accepted (strip ''orwell'') sample_db"
    using sample_accepted(1) by (simp only: sample_strip)
  from search_result_sets[OF ne ac] obtain B1 A1 bs as where
    b1: "books_by_title (strip ''orwell'') sample_db = Inr B1"
    and a1: "authors_by_name (strip ''orwell'') sample_db = Inr A1"
    and r: "search_all ''orwell'' sample_db =
         (200, SearchResult (strip ''orwell'') (map (book_to_dict sample_db) bs)
                 (map (author_to_dict sample_db) as) (card (set bs)) (card (set as)))"
    and bs: "set bs = set B1
                 \<union> {b \<in> set (books sample_db). \<exists>a \<in> set A1.
                        (b_id b, a_id a) \<in> set (book_author sample_db)}"
    and as: "set as = set A1
                 \<union> {a \<in> set (authors sample_db). \<exists>b \<in> set B1.
                        (b_id b, a_id a) \<in> set (book_author sample_db)}"
    by (elim exE conjE)
  from b1 have B1: "B1 = []" by (simp add: sample_strip sample_books_by_title)
  from a1 have A1: "A1 = [authors sample_db ! 1]"
    by (simp add: sample_strip sample_authors_by_name)
  have bs': "set bs = {books sample_db ! 1, books sample_db ! 2}"
    using bs unfolding B1 A1 by (simp only: sample_orwell_books)
  have as': "set as = {authors sample_db ! 1}"
    using as unfolding B1 A1 by (simp only: sample_orwell_authors)
  have "search_all ''orwell'' sample_db =
       (200, SearchResult ''orwell'' (map (book_to_dict sample_db) bs)
               (map (author_to_dict sample_db) as) 2 1)"
    using r by (simp only: bs' as' sample_orwell_card sample_strip)
  with bs' as' show ?thesis by blast
qed

lemma sample_no_underscore:
  "{b \<in> set (books sample_db). sublist (map lower ''_'') (map lower (b_title b))} = {}"
  by code_simp

lemma sample_cafe_contained:
  "sublist (map unicode_lower cafe_query) (map unicode_lower (b_title (books latin_db ! 0)))"
  by code_simp

lemma sample_nul_not_contained:
  "\<not> sublist (map lower nul_query) (map lower (b_title (books sample_db ! 2)))"
  by code_simp

lemma sample_farm_contained:
  "sublist (map lower ''farm'') (map lower (b_title (books latin_db ! 1)))"
  by code_simp

text \<open>C3, as the claim states it, fails, in five ways. The query \<open>_\<close> selects every
  Book of the sample store, though no title contains an underscore. The query \<open>caf\<close>
  with a small e acute does not select the title \<open>CAF\<close> with a capital E acute, which
  contains it up to case. The query \<open>m\<close>, NUL, \<open>z\<close> selects \<open>Animal Farm\<close>, which does
  not contain it: the pattern ends at the NUL. The query \<open>farm\<close> does not select the
  title \<open>x\<close>, NUL, \<open>farm\<close>, which contains it: the title ends at the NUL. And for the
  query of 49999 letters the Book query raises, so that there is no B1.\<close>

theorem search_substring_counterexample:
  "books_by_title (strip ''_'') sample_db = Inr (books sample_db)
   \<and> {b \<in> set (books sample_db). sublist (map lower ''_'') (map lower (b_title b))} = {}
   \<and> books_by_title (strip cafe_query) latin_db = Inr []
   \<and> sublist (map unicode_lower cafe_query) (map unicode_lower (b_title (books latin_db ! 0)))
   \<and> books_by_title (strip nul_query) sample_db = Inr [books sample_db ! 2]
   \<and> \<not> sublist (map lower nul_query) (map lower (b_title (books sample_db ! 2)))
   \<and> books_by_title (strip ''farm'') latin_db = Inr []
   \<and> sublist (map lower ''farm'') (map lower (b_title (books latin_db ! 1)))
   \<and> books_by_title (strip long_query) sample_db = Inl OperationalError"
  unfolding sample_strip long_query_facts(1)
  by (intro conjI)
     (rule sample_books_by_title sample_no_underscore sample_cafe_contained
           sample_nul_not_contained sample_farm_contained)+

text \<open>C3, amended. For a query with no NUL character whose pattern SQLite accepts (at
  most 50000 bytes, or no row stored), B1 and A1 are the rows whose title or name matches
  the SQL pattern \<open>%query%\<close>. They include the rows whose title or name, read up to its
  first NUL character, contains the query as a substring up to ASCII case, and they are
  exactly those rows when the query has neither \<open>%\<close> nor \<open>_\<close>.\<close>

theorem search_match_is_substring_without_wildcards:
  "nul_free query \<and> pattern_accepted query s \<longrightarrow>
   (\<exists>B1 A1.
      books_by_title query s = Inr B1 \<and> authors_by_name query s = Inr A1
      \<and> {b \<in> set (books s). sublist (map lower query) (map lower (c_string (b_title b)))}
           \<subseteq> set B1
      \<and> {a \<in> set (authors s). sublist (map lower query) (map lower (c_string (a_name a)))}
           \<subseteq> set A1
      \<and> (no_wildcard query \<longrightarrow>
           set B1 = {b \<in> set (books s).
                       sublist (map lower query) (map lower (c_string (b_title b)))}
           \<and> set A1 = {a \<in> set (authors s).
                         sublist (map lower query) (map lower (c_string (a_name a)))}))"
proof
  assume h: "nul_free query \<and> pattern_accepted query s"
  then have nf: "nul_free query" and ac: "pattern_accepted query s" by simp_all
  let ?B1 = "filter (\<lambda>b. matches query (b_title b)) (books s)"
  let ?A1 = "filter (\<lambda>a. matches query (a_name a)) (authors s)"
  have b1: "books_by_title query s = Inr ?B1" by (rule books_by_title_accepted[OF ac])
  have a1: "authors_by_name query s = Inr ?A1" by (rule authors_by_name_accepted[OF ac])
  have m1: "\<And>t. sublist (map lower query) (map lower (c_string t)) \<Longrightarrow> matches query t"
    by (rule sublist_imp_matches[OF nf])
  have m2: "\<And>t. no_wildcard query \<Longrightarrow>
             matches query t \<longleftrightarrow> sublist (map lower query) (map lower (c_string t))"
    by (rule matches_plain_sublist[OF _ nf])
  have 1: "{b \<in> set (books s). sublist (map lower query) (map lower (c_string (b_title b)))}
           \<subseteq> set ?B1"
    using m1 by auto
  have 2: "{a \<in> set (authors s). sublist (map lower query) (map lower (c_string (a_name a)))}
           \<subseteq> set ?A1"
    using m1 by auto
  have 3: "no_wildcard query \<longrightarrow>
           set ?B1 = {b \<in> set (books s).
                       sublist (map lower query) (map lower (c_string (b_title b)))}
           \<and> set ?A1 = {a \<in> set (authors s).
                         sublist (map lower query) (map lower (c_string (a_name a)))}"
    using m2 by auto
  show "\<exists>B1 A1.
      books_by_title query s = Inr B1 \<and> authors_by_name query s = Inr A1
      \<and> {b \<in> set (books s). sublist (map lower query) (map lower (c_string (b_title b)))}
           \<subseteq> set B1
      \<and> {a \<in> set (authors s). sublist (map lower query) (map lower (c_string (a_name a)))}
           \<subseteq> set A1
      \<and> (no_wildcard query \<longrightarrow>
           set B1 = {b \<in> set (books s).
                       sublist (map lower query) (map lower (c_string (b_title b)))}
           \<and> set A1 = {a \<in> set (authors s).
                         sublist (map lower query) (map lower (c_string (a_name a)))})"
    by (rule exI[of _ ?B1], rule exI[of _ ?A1], intro conjI) (rule b1 a1 1 2 3)+
qed

lemma sample_farm_rows:
  "{b \<in> set (books sample_db).
      sublist (map lower ''farm'') (map lower (c_string (b_title b)))} = {books sample_db ! 2}"
  by code_simp

theorem search_match_is_substring_without_wildcards_witness:
  "nul_free ''farm'' \<and> pattern_accepted ''farm'' sample_db \<and> no_wildcard ''farm''
   \<and> (\<exists>B1. books_by_title ''farm'' sample_db = Inr B1
          \<and> set B1 = {b \<in> set (books sample_db).
                        sublist (map lower ''farm'') (map lower (c_string (b_title b)))}
          \<and> set B1 = {books sample_db ! 2})"
proof -
  have nf: "nul_free ''farm''" by (simp add: nul_free_def)
  have nw: "no_wildcard ''farm''" by (simp add: no_wildcard_def)
  note ac = sample_accepted(2)[of sample_db]
  from search_match_is_substring_without_wildcards[of "''farm''" sample_db] nf ac
  obtain B1 A1 where b: "books_by_title ''farm'' sample_db = Inr B1"
    and w: "no_wildcard ''farm'' \<longrightarrow>
           set B1 = {b \<in> set (books sample_db).
                       sublist (map lower ''farm'') (map lower (c_string (b_title b)))}
           \<and> set A1 = {a \<in> set (authors sample_db).
                         sublist (map lower ''farm'') (map lower (c_string (a_name a)))}"
    by blast
  from w nw have e: "set B1 = {b \<in> set (books sample_db).
                       sublist (map lower ''farm'') (map lower (c_string (b_title b)))}"
    by blast
  then have "set B1 = {books sample_db ! 2}" by (simp only: sample_farm_rows)
  with b e have "\<exists>B1. books_by_title ''farm'' sample_db = Inr B1
          \<and> set B1 = {b \<in> set (books sample_db).
                        sublist (map lower ''farm'') (map lower (c_string (b_title b)))}
          \<and> set B1 = {books sample_db ! 2}"
    by blast
  with nf ac nw show ?thesis by (intro conjI)
qed

subsection \<open>The handlers, case by case\<close>

lemma find_append_fresh:
  "find P xs = None \<Longrightarrow> P y \<Longrightarrow> find P (xs @ [y]) = Some y"
  by (induction xs) (auto split: if_splits)

lemma fold_max_ge: "y \<in> set (x # xs) \<Longrightarrow> (y::int) \<le> fold max xs x"
proof -
  assume "y \<in> set (x # xs)"
  then have "y \<le> Max (set (x # xs))" by (intro Max_ge) auto
  then show ?thesis by (simp only: Max.set_eq_fold)
qed

lemma next_id_fresh: "next_id ids \<notin> set ids"
proof (cases ids)
  case Nil
  then show ?thesis by simp
next
  case (Cons x xs)
  show ?thesis
  proof
    assume "next_id ids \<in> set ids"
    with Cons have "fold max xs x + 1 \<le> fold max xs x"
      using fold_max_ge[of "next_id ids" x xs] by (simp add: next_id_def)
    then show False by simp
  qed
qed

lemma book_row_fresh: "book_row s (next_id (map b_id (books s))) = None"
  using next_id_fresh[of "map b_id (books s)"]
  by (force simp: book_row_def find_None_iff)

lemma author_row_fresh: "author_row s (next_id (map a_id (authors s))) = None"
  using next_id_fresh[of "map a_id (authors s)"]
  by (force simp: author_row_def find_None_iff)



lemma get_book_row_in: "fits_int64 i \<Longrightarrow> get_book_row s i = Inr (book_row s i)"
  by (simp add: get_book_row_def)

lemma get_author_row_in: "fits_int64 i \<Longrightarrow> get_author_row s i = Inr (author_row s i)"
  by (simp add: get_author_row_def)

lemma get_book_row_out: "\<not> fits_int64 i \<Longrightarrow> get_book_row s i = Inl OverflowError"
  by (simp add: get_book_row_def)

lemma get_author_row_out: "\<not> fits_int64 i \<Longrightarrow> get_author_row s i = Inl OverflowError"
  by (simp add: get_author_row_def)


lemma author_row_SomeD:
  "author_row s j = Some a \<Longrightarrow> a \<in> set (authors s) \<and> a_id a = j"
  by (auto simp: author_row_def find_Some_iff)

text \<open>The loop over a list of ids raises when an id is out of range, and collects the
  Authors named otherwise.\<close>

lemma append_authors_eq:
  "append_authors s ids acc =
     (if list_all fits_int64 ids then Inr (acc @ authors_named s ids) else Inl OverflowError)"
proof (induction ids arbitrary: acc)
  case Nil
  show ?case by (simp add: authors_named_def)
next
  case (Cons i ids)
  show ?case
  proof (cases "fits_int64 i")
    case False
    then show ?thesis by (simp add: get_author_row_def)
  next
    case True
    show ?thesis
    proof (cases "author_row s i")
      case None
      with True show ?thesis using Cons.IH[of acc]
        by (simp add: get_author_row_def authors_named_def)
    next
      case (Some a)
      with True show ?thesis using Cons.IH[of "acc @ [a]"]
        by (simp add: get_author_row_def authors_named_def)
    qed
  qed
qed

lemma body_ids_loop:
  "(case dict_get (d_author_ids d) of None \<Rightarrow> Inr [] | Some ids \<Rightarrow> append_authors s ids [])
   = (if list_all fits_int64 (body_ids d) then Inr (authors_named s (body_ids d))
      else Inl OverflowError)"
  by (cases "dict_get (d_author_ids d)")
     (simp_all add: body_ids_def append_authors_eq authors_named_def)

lemma add_book_InrD:
  assumes "add_book uow b as s = Inr s'"
  shows "s' = s\<lparr>books := books s @ [b],
                 book_author := book_author s @ map (\<lambda>a. (b_id b, a_id a)) (remdups as)\<rparr>"
    and "fits_int64 (b_id b)" and "storable (b_year b)"
    and "\<not> isbn_taken s (b_id b) (b_isbn b)"
    and "links_insertable s (map (\<lambda>a. (b_id b, a_id a)) (remdups as))"
  using assms by (simp_all add: add_book_def Let_def split: if_splits)

lemma add_author_InrD:
  assumes "add_author a s = Inr s'"
  shows "s' = s\<lparr>authors := authors s @ [a]\<rparr>"
    and "fits_int64 (a_id a)" and "storable (a_birth_year a)"
  using assms by (simp_all add: add_author_def split: if_splits)

lemma create_book_unfold:
  "create_book uow now (JsonObject d) s =
     (if book_data_empty d then ((400, Failure ''No data provided''), s)
      else if \<not> truthy (dict_get (d_title d)) then ((400, Failure ''Title is required''), s)
      else if truthy (dict_get (d_isbn d))
              \<and> find (\<lambda>b. b_isbn b = dict_get (d_isbn d)) (books s) \<noteq> None
        then ((400, Failure ''ISBN already exists''), s)
      else if \<not> list_all fits_int64 (body_ids d) then ((500, ServerError), s)
      else (case add_book uow (created_book now d s) (authors_named s (body_ids d)) s of
              Inl e \<Rightarrow> ((500, ServerError), s)
            | Inr s' \<Rightarrow> ((201, BookSaved ''Book created successfully''
                                  (book_to_dict s' (created_book now d s))), s')))"
proof (cases "dict_get (d_title d)")
  case None
  then show ?thesis by (simp add: create_book_def truthy_def)
next
  case (Some t)
  have cb: "created_book now d s =
      \<lparr>b_id = next_id (map b_id (books s)), b_title = t,
       b_year = dict_get (d_year d), b_isbn = dict_get (d_isbn d), b_created_at = now\<rparr>"
    by (simp add: created_book_def Some)
  show ?thesis
    unfolding cb create_book_def Let_def body_ids_loop
    by (auto simp: Some truthy_def)
qed

lemma create_author_unfold:
  "create_author now (JsonObject d) s =
     (if author_data_empty d then ((400, Failure ''No data provided''), s)
      else if \<not> truthy (dict_get (d_name d)) then ((400, Failure ''Name is required''), s)
      else (case add_author (created_author now d s) s of
              Inl e \<Rightarrow> ((500, ServerError), s)
            | Inr s' \<Rightarrow> ((201, AuthorSaved ''Author created successfully''
                                  (author_to_dict s' (created_author now d s))), s')))"
proof (cases "dict_get (d_name d)")
  case None
  then show ?thesis by (simp add: create_author_def truthy_def)
next
  case (Some n)
  have ca: "created_author now d s =
      \<lparr>a_id = next_id (map a_id (authors s)), a_name = n,
       a_birth_year = dict_get (d_birth_year d), a_country = dict_get (d_country d),
       a_created_at = now\<rparr>"
    by (simp add: created_author_def Some)
  show ?thesis
    unfolding ca create_author_def Let_def
    by (simp add: Some truthy_def)
qed

lemma create_book_no_object:
  "create_book uow now JsonNull s = ((400, Failure ''No data provided''), s)"
  "create_book uow now NotJson s = ((415, Aborted), s)"
  "create_book uow now Malformed s = ((400, Aborted), s)"
  by (simp_all add: create_book_def)

lemma create_author_no_object:
  "create_author now JsonNull s = ((400, Failure ''No data provided''), s)"
  "create_author now NotJson s = ((415, Aborted), s)"
  "create_author now Malformed s = ((400, Aborted), s)"
  by (simp_all add: create_author_def)

lemma update_authors_loop:
  "(case d_author_ids d of
      None \<Rightarrow> Inr None
    | Some None \<Rightarrow> Inl TypeError
    | Some (Some ids) \<Rightarrow>
        (case append_authors s ids [] of Inl e \<Rightarrow> Inl e | Inr new \<Rightarrow> Inr (Some new)))
   = (if d_author_ids d = Some None then Inl TypeError
      else if \<not> list_all fits_int64 (body_ids d) then Inl OverflowError
      else Inr (replaced_authors s d))"
proof (cases "d_author_ids d")
  case None
  then show ?thesis by (simp add: body_ids_def dict_get_def replaced_authors_def)
next
  case (Some v)
  then show ?thesis
    by (cases v) (simp_all add: body_ids_def dict_get_def replaced_authors_def append_authors_eq)
qed

lemma update_book_unfold:
  assumes "get_book_row s i = Inr (Some book)"
  shows "update_book uow i (JsonObject d) s =
     (if book_data_empty d then ((400, Failure ''No data provided''), s)
      else if d_author_ids d = Some None \<or> d_title d = Some None
              \<or> \<not> list_all fits_int64 (body_ids d)
        then ((500, ServerError), s)
      else (case save_book uow (updated_book book d) (replaced_authors s d) s of
              Inl e \<Rightarrow> ((500, ServerError), s)
            | Inr s' \<Rightarrow> ((200, BookSaved ''Book updated successfully''
                                  (book_to_dict s' (updated_book book d))), s')))"
  unfolding update_book_def updated_book_def Let_def update_authors_loop
  using assms by (simp split: option.splits)

lemma update_author_unfold:
  assumes "get_author_row s i = Inr (Some author)"
  shows "update_author i (JsonObject d) s =
     (if author_data_empty d then ((400, Failure ''No data provided''), s)
      else if d_name d = Some None then ((500, ServerError), s)
      else (case save_author (updated_author author d) s of
              Inl e \<Rightarrow> ((500, ServerError), s)
            | Inr s' \<Rightarrow> ((200, AuthorSaved ''Author updated successfully''
                                  (author_to_dict s' (updated_author author d))), s')))"
  unfolding update_author_def updated_author_def Let_def
  using assms by (simp split: option.splits)

lemma update_book_no_object:
  assumes "get_book_row s i = Inr (Some book)"
  shows "update_book uow i JsonNull s = ((400, Failure ''No data provided''), s)"
    and "update_book uow i NotJson s = ((415, Aborted), s)"
    and "update_book uow i Malformed s = ((400, Aborted), s)"
  using assms by (simp_all add: update_book_def)

lemma update_author_no_object:
  assumes "get_author_row s i = Inr (Some author)"
  shows "update_author i JsonNull s = ((400, Failure ''No data provided''), s)"
    and "update_author i NotJson s = ((415, Aborted), s)"
    and "update_author i Malformed s = ((400, Aborted), s)"
  using assms by (simp_all add: update_author_def)

lemma update_book_404:
  "get_book_row s i = Inr None \<Longrightarrow>
     update_book uow i body s = ((404, Failure ''Book not found''), s)"
  by (simp add: update_book_def)

lemma update_author_404:
  "get_author_row s i = Inr None \<Longrightarrow>
     update_author i body s = ((404, Failure ''Author not found''), s)"
  by (simp add: update_author_def)

lemma update_book_500:
  "get_book_row s i = Inl e \<Longrightarrow> update_book uow i body s = ((500, ServerError), s)"
  by (simp add: update_book_def)

lemma update_author_500:
  "get_author_row s i = Inl e \<Longrightarrow> update_author i body s = ((500, ServerError), s)"
  by (simp add: update_author_def)

subsection \<open>Delete\<close>

lemma delete_book_found:
  assumes "fits_int64 i" "book_row s i = Some b"
  shows "delete_book i s =
     ((200, Deleted ''Book deleted successfully''),
      s\<lparr>books := filter (\<lambda>x. b_id x \<noteq> i) (books s),
        book_author := filter (\<lambda>r. fst r \<noteq> i) (book_author s)\<rparr>)"
  using assms by (simp add: delete_book_def get_book_row_def)

lemma delete_book_missing:
  "fits_int64 i \<Longrightarrow> book_row s i = None \<Longrightarrow>
     delete_book i s = ((404, Failure ''Book not found''), s)"
  by (simp add: delete_book_def get_book_row_def)

lemma delete_book_out_of_range:
  "\<not> fits_int64 i \<Longrightarrow> delete_book i s = ((500, ServerError), s)"
  by (simp add: delete_book_def get_book_row_def)

lemma delete_author_found:
  assumes "fits_int64 i" "author_row s i = Some a"
  shows "delete_author i s =
     ((200, Deleted ''Author deleted successfully''),
      s\<lparr>authors := filter (\<lambda>x. a_id x \<noteq> i) (authors s),
        book_author := filter (\<lambda>r. snd r \<noteq> i) (book_author s)\<rparr>)"
  using assms by (simp add: delete_author_def get_author_row_def)

lemma delete_author_missing:
  "fits_int64 i \<Longrightarrow> author_row s i = None \<Longrightarrow>
     delete_author i s = ((404, Failure ''Author not found''), s)"
  by (simp add: delete_author_def get_author_row_def)

lemma delete_author_out_of_range:
  "\<not> fits_int64 i \<Longrightarrow> delete_author i s = ((500, ServerError), s)"
  by (simp add: delete_author_def get_author_row_def)

lemma delete_book_effect:
  assumes "fits_int64 i" "book_row s i = Some b"
  shows "fst (delete_book i s) = (200, Deleted ''Book deleted successfully'')
     \<and> get_book_row (snd (delete_book i s)) i = Inr None
     \<and> books (snd (delete_book i s)) = filter (\<lambda>x. b_id x \<noteq> i) (books s)
     \<and> set (book_author (snd (delete_book i s))) = {r \<in> set (book_author s). fst r \<noteq> i}
     \<and> authors (snd (delete_book i s)) = authors s
     \<and> (\<forall>a. author_books (snd (delete_book i s)) a
               = filter (\<lambda>x. b_id x \<noteq> i) (author_books s a))
     \<and> delete_book i (snd (delete_book i s))
         = ((404, Failure ''Book not found''), snd (delete_book i s))"
proof -
  let ?s' = "s\<lparr>books := filter (\<lambda>x. b_id x \<noteq> i) (books s),
        book_author := filter (\<lambda>r. fst r \<noteq> i) (book_author s)\<rparr>"
  have d: "delete_book i s = ((200, Deleted ''Book deleted successfully''), ?s')"
    by (rule delete_book_found[OF assms])
  have g0: "book_row ?s' i = None"
    by (simp add: book_row_def find_None_iff)
  have g: "get_book_row ?s' i = Inr None"
    using g0 assms(1) by (simp add: get_book_row_def)
  have ab: "\<forall>a. author_books ?s' a = filter (\<lambda>x. b_id x \<noteq> i) (author_books s a)"
    by (auto simp: author_books_def intro: filter_cong)
  have "set (book_author ?s') = {r \<in> set (book_author s). fst r \<noteq> i}" by auto
  with d g ab delete_book_missing[OF assms(1) g0] show ?thesis by simp
qed

lemma delete_author_effect:
  assumes "fits_int64 i" "author_row s i = Some a"
  shows "fst (delete_author i s) = (200, Deleted ''Author deleted successfully'')
     \<and> get_author_row (snd (delete_author i s)) i = Inr None
     \<and> authors (snd (delete_author i s)) = filter (\<lambda>x. a_id x \<noteq> i) (authors s)
     \<and> set (book_author (snd (delete_author i s))) = {r \<in> set (book_author s). snd r \<noteq> i}
     \<and> books (snd (delete_author i s)) = books s
     \<and> (\<forall>b. book_authors (snd (delete_author i s)) b
               = filter (\<lambda>x. a_id x \<noteq> i) (book_authors s b))
     \<and> delete_author i (snd (delete_author i s))
         = ((404, Failure ''Author not found''), snd (delete_author i s))"
proof -
  let ?s' = "s\<lparr>authors := filter (\<lambda>x. a_id x \<noteq> i) (authors s),
        book_author := filter (\<lambda>r. snd r \<noteq> i) (book_author s)\<rparr>"
  have d: "delete_author i s = ((200, Deleted ''Author deleted successfully''), ?s')"
    by (rule delete_author_found[OF assms])
  have g0: "author_row ?s' i = None"
    by (simp add: author_row_def find_None_iff)
  have g: "get_author_row ?s' i = Inr None"
    using g0 assms(1) by (simp add: get_author_row_def)
  have ab: "\<forall>b. book_authors ?s' b = filter (\<lambda>x. a_id x \<noteq> i) (book_authors s b)"
    by (auto simp: book_authors_def intro: filter_cong)
  have "set (book_author ?s') = {r \<in> set (book_author s). snd r \<noteq> i}" by auto
  with d g ab delete_author_missing[OF assms(1) g0] show ?thesis by simp
qed

text \<open>C8, as the claim states it, fails: the routes accept the id \<open>2^63\<close>, no Book and
  no Author has it, and the delete is answered 500, not 404, since the lookup raises.\<close>

theorem delete_out_of_range_counterexample:
  "book_row sample_db (2 ^ 63) = None
   \<and> delete_book (2 ^ 63) sample_db = ((500, ServerError), sample_db)
   \<and> author_row sample_db (2 ^ 63) = None
   \<and> delete_author (2 ^ 63) sample_db = ((500, ServerError), sample_db)"
  by code_simp

text \<open>C8, amended. For an id in the 64-bit range: deleting a stored Book removes the row
  and every association row that names it, so no Author lists it any more, and leaves the
  Authors as they were; a delete of an id with no Book, a second delete of the same id
  included, is answered 404. The same holds for Authors.\<close>

theorem delete_removes_entity_and_links:
  "(fits_int64 i \<and> book_row s i \<noteq> None \<longrightarrow>
      fst (delete_book i s) = (200, Deleted ''Book deleted successfully'')
      \<and> get_book_row (snd (delete_book i s)) i = Inr None
      \<and> books (snd (delete_book i s)) = filter (\<lambda>x. b_id x \<noteq> i) (books s)
      \<and> set (book_author (snd (delete_book i s))) = {r \<in> set (book_author s). fst r \<noteq> i}
      \<and> authors (snd (delete_book i s)) = authors s
      \<and> (\<forall>a. author_books (snd (delete_book i s)) a
                = filter (\<lambda>x. b_id x \<noteq> i) (author_books s a))
      \<and> delete_book i (snd (delete_book i s))
          = ((404, Failure ''Book not found''), snd (delete_book i s)))
   \<and> (fits_int64 i \<and> book_row s i = None \<longrightarrow>
        delete_book i s = ((404, Failure ''Book not found''), s))
   \<and> (fits_int64 j \<and> author_row s j \<noteq> None \<longrightarrow>
      fst (delete_author j s) = (200, Deleted ''Author deleted successfully'')
      \<and> get_author_row (snd (delete_author j s)) j = Inr None
      \<and> authors (snd (delete_author j s)) = filter (\<lambda>x. a_id x \<noteq> j) (authors s)
      \<and> set (book_author (snd (delete_author j s))) = {r \<in> set (book_author s). snd r \<noteq> j}
      \<and> books (snd (delete_author j s)) = books s
      \<and> (\<forall>b. book_authors (snd (delete_author j s)) b
                = filter (\<lambda>x. a_id x \<noteq> j) (book_authors s b))
      \<and> delete_author j (snd (delete_author j s))
          = ((404, Failure ''Author not found''), snd (delete_author j s)))
   \<and> (fits_int64 j \<and> author_row s j = None \<longrightarrow>
        delete_author j s = ((404, Failure ''Author not found''), s))"
proof -
  have A: "fits_int64 i \<and> book_row s i \<noteq> None \<longrightarrow>
      fst (delete_book i s) = (200, Deleted ''Book deleted successfully'')
      \<and> get_book_row (snd (delete_book i s)) i = Inr None
      \<and> books (snd (delete_book i s)) = filter (\<lambda>x. b_id x \<noteq> i) (books s)
      \<and> set (book_author (snd (delete_book i s))) = {r \<in> set (book_author s). fst r \<noteq> i}
      \<and> authors (snd (delete_book i s)) = authors s
      \<and> (\<forall>a. author_books (snd (delete_book i s)) a
                = filter (\<lambda>x. b_id x \<noteq> i) (author_books s a))
      \<and> delete_book i (snd (delete_book i s))
          = ((404, Failure ''Book not found''), snd (delete_book i s))"
  proof
    assume h: "fits_int64 i \<and> book_row s i \<noteq> None"
    then obtain b where b: "book_row s i = Some b" by blast
    from h have f: "fits_int64 i" by simp
    show "fst (delete_book i s) = (200, Deleted ''Book deleted successfully'')
      \<and> get_book_row (snd (delete_book i s)) i = Inr None
      \<and> books (snd (delete_book i s)) = filter (\<lambda>x. b_id x \<noteq> i) (books s)
      \<and> set (book_author (snd (delete_book i s))) = {r \<in> set (book_author s). fst r \<noteq> i}
      \<and> authors (snd (delete_book i s)) = authors s
      \<and> (\<forall>a. author_books (snd (delete_book i s)) a
                = filter (\<lambda>x. b_id x \<noteq> i) (author_books s a))
      \<and> delete_book i (snd (delete_book i s))
          = ((404, Failure ''Book not found''), snd (delete_book i s))"
      by (rule delete_book_effect[OF f b])
  qed
  have B: "fits_int64 i \<and> book_row s i = None \<longrightarrow>
        delete_book i s = ((404, Failure ''Book not found''), s)"
    using delete_book_missing by blast
  have C: "fits_int64 j \<and> author_row s j \<noteq> None \<longrightarrow>
      fst (delete_author j s) = (200, Deleted ''Author deleted successfully'')
      \<and> get_author_row (snd (delete_author j s)) j = Inr None
      \<and> authors (snd (delete_author j s)) = filter (\<lambda>x. a_id x \<noteq> j) (authors s)
      \<and> set (book_author (snd (delete_author j s))) = {r \<in> set (book_author s). snd r \<noteq> j}
      \<and> books (snd (delete_author j s)) = books s
      \<and> (\<forall>b. book_authors (snd (delete_author j s)) b
                = filter (\<lambda>x. a_id x \<noteq> j) (book_authors s b))
      \<and> delete_author j (snd (delete_author j s))
          = ((404, Failure ''Author not found''), snd (delete_author j s))"
  proof
    assume h: "fits_int64 j \<and> author_row s j \<noteq> None"
    then obtain a where a: "author_row s j = Some a" by blast
    from h have f: "fits_int64 j" by simp
    show "fst (delete_author j s) = (200, Deleted ''Author deleted successfully'')
      \<and> get_author_row (snd (delete_author j s)) j = Inr None
      \<and> authors (snd (delete_author j s)) = filter (\<lambda>x. a_id x \<noteq> j) (authors s)
      \<and> set (book_author (snd (delete_author j s))) = {r \<in> set (book_author s). snd r \<noteq> j}
      \<and> books (snd (delete_author j s)) = books s
      \<and> (\<forall>b. book_authors (snd (delete_author j s)) b
                = filter (\<lambda>x. a_id x \<noteq> j) (book_authors s b))
      \<and> delete_author j (snd (delete_author j s))
          = ((404, Failure ''Author not found''), snd (delete_author j s))"
      by (rule delete_author_effect[OF f a])
  qed
  have D: "fits_int64 j \<and> author_row s j = None \<longrightarrow>
        delete_author j s = ((404, Failure ''Author not found''), s)"
    using delete_author_missing by blast
  from A B C D show ?thesis by (intro conjI)
qed

lemma sample_rows:
  "fits_int64 2 \<and> book_row sample_db 2 = Some (books sample_db ! 1)"
  "fits_int64 9 \<and> book_row sample_db 9 = None"
  "fits_int64 2 \<and> author_row sample_db 2 = Some (authors sample_db ! 1)"
  "fits_int64 9 \<and> author_row sample_db 9 = None"
  by code_simp+


lemma sample_delete_book_links:
  "{r \<in> set (book_author sample_db). fst r \<noteq> 2} = {(1, 1), (3, 2)}"
  by code_simp

lemma sample_author_books_after:
  "filter (\<lambda>x. b_id x \<noteq> 2) (author_books sample_db (authors sample_db ! 1))
     = [books sample_db ! 2]"
  by code_simp

theorem delete_removes_entity_and_links_witness:
  "fst (delete_book 2 sample_db) = (200, Deleted ''Book deleted successfully'')
   \<and> set (book_author (snd (delete_book 2 sample_db))) = {(1, 1), (3, 2)}
   \<and> authors (snd (delete_book 2 sample_db)) = authors sample_db
   \<and> author_books (snd (delete_book 2 sample_db)) (authors sample_db ! 1) = [books sample_db ! 2]
   \<and> delete_book 2 (snd (delete_book 2 sample_db))
       = ((404, Failure ''Book not found''), snd (delete_book 2 sample_db))
   \<and> delete_book 9 sample_db = ((404, Failure ''Book not found''), sample_db)
   \<and> fst (delete_author 2 sample_db) = (200, Deleted ''Author deleted successfully'')
   \<and> delete_author 9 sample_db = ((404, Failure ''Author not found''), sample_db)"
proof -
  have found: "fits_int64 2 \<and> book_row sample_db 2 \<noteq> None"
      "fits_int64 2 \<and> author_row sample_db 2 \<noteq> None"
    using sample_rows(1,3) by simp_all
  have missing: "fits_int64 9 \<and> book_row sample_db 9 = None"
      "fits_int64 9 \<and> author_row sample_db 9 = None"
    by (rule sample_rows)+
  note t2 = delete_removes_entity_and_links[of 2 sample_db 2]
  note t9 = delete_removes_entity_and_links[of 9 sample_db 9]
  from t2 found have
    1: "fst (delete_book 2 sample_db) = (200, Deleted ''Book deleted successfully'')"
    and 2: "set (book_author (snd (delete_book 2 sample_db)))
              = {r \<in> set (book_author sample_db). fst r \<noteq> 2}"
    and 3: "authors (snd (delete_book 2 sample_db)) = authors sample_db"
    and 4: "author_books (snd (delete_book 2 sample_db)) (authors sample_db ! 1)
              = filter (\<lambda>x. b_id x \<noteq> 2) (author_books sample_db (authors sample_db ! 1))"
    and 5: "delete_book 2 (snd (delete_book 2 sample_db))
              = ((404, Failure ''Book not found''), snd (delete_book 2 sample_db))"
    and 6: "fst (delete_author 2 sample_db) = (200, Deleted ''Author deleted successfully'')"
    by blast+
  from t9 missing have
    7: "delete_book 9 sample_db = ((404, Failure ''Book not found''), sample_db)"
    and 8: "delete_author 9 sample_db = ((404, Failure ''Author not found''), sample_db)"
    by blast+
  from 1 2 3 4 5 6 7 8 show ?thesis
    by (simp only: sample_delete_book_links sample_author_books_after simp_thms)
qed

subsection \<open>Create, then get\<close>

lemma create_book_201E:
  assumes "fst (fst (create_book uow now body s)) = 201"
  shows "\<exists>d s'. body = JsonObject d \<and> truthy (dict_get (d_title d))
           \<and> add_book uow (created_book now d s) (authors_named s (body_ids d)) s = Inr s'
           \<and> create_book uow now body s =
               ((201, BookSaved ''Book created successfully''
                        (book_to_dict s' (created_book now d s))), s')"
proof (cases body)
  case NotJson
  with assms show ?thesis by (simp add: create_book_no_object)
next
  case Malformed
  with assms show ?thesis by (simp add: create_book_no_object)
next
  case JsonNull
  with assms show ?thesis by (simp add: create_book_no_object)
next
  case (JsonObject d)
  with assms show ?thesis
    by (simp add: create_book_unfold split: if_splits sum.splits)
qed

lemma create_author_201E:
  assumes "fst (fst (create_author now body s)) = 201"
  shows "\<exists>d s'. body = JsonObject d \<and> truthy (dict_get (d_name d))
           \<and> add_author (created_author now d s) s = Inr s'
           \<and> create_author now body s =
               ((201, AuthorSaved ''Author created successfully''
                    (author_to_dict s' (created_author now d s))), s')"
proof (cases body)
  case NotJson
  with assms show ?thesis by (simp add: create_author_no_object)
next
  case Malformed
  with assms show ?thesis by (simp add: create_author_no_object)
next
  case JsonNull
  with assms show ?thesis by (simp add: create_author_no_object)
next
  case (JsonObject d)
  with assms show ?thesis
    by (simp add: create_author_unfold split: if_splits sum.splits)
qed

lemma created_book_title:
  "truthy (dict_get (d_title d)) \<Longrightarrow> dict_get (d_title d) = Some (b_title (created_book now d s))"
  by (simp add: created_book_def truthy_def split: option.splits)

lemma created_author_name:
  "truthy (dict_get (d_name d)) \<Longrightarrow> dict_get (d_name d) = Some (a_name (created_author now d s))"
  by (simp add: created_author_def truthy_def split: option.splits)

lemma create_book_then_get:
  assumes "fst (fst (create_book uow now body s)) = 201"
  shows "\<exists>d0 d s'. body = JsonObject d0
            \<and> create_book uow now body s = ((201, BookSaved ''Book created successfully'' d), s')
            \<and> get_book (bd_id d) s' = (200, BookOne d)
            \<and> dict_get (d_title d0) = Some (bd_title d)
            \<and> bd_year d = dict_get (d_year d0) \<and> bd_isbn d = dict_get (d_isbn d0)"
proof -
  from create_book_201E[OF assms] obtain d0 s' where
    data: "body = JsonObject d0" and tt: "truthy (dict_get (d_title d0))"
    and add: "add_book uow (created_book now d0 s) (authors_named s (body_ids d0)) s = Inr s'"
    and r: "create_book uow now body s =
               ((201, BookSaved ''Book created successfully''
                        (book_to_dict s' (created_book now d0 s))), s')"
    by blast
  let ?nb = "created_book now d0 s"
  let ?i = "next_id (map b_id (books s))"
  have nb: "b_id ?nb = ?i" by (simp add: created_book_def)
  have fit: "fits_int64 ?i" using add_book_InrD(2)[OF add] nb by simp
  have "book_row s' ?i = Some ?nb"
    using book_row_fresh[of s] nb add_book_InrD(1)[OF add]
    by (simp add: book_row_def find_append_fresh)
  with fit have "get_book_row s' ?i = Inr (Some ?nb)" by (simp add: get_book_row_def)
  then have g: "get_book (bd_id (book_to_dict s' ?nb)) s' = (200, BookOne (book_to_dict s' ?nb))"
    using nb by (simp add: get_book_def book_to_dict_def)
  have f: "dict_get (d_title d0) = Some (bd_title (book_to_dict s' ?nb))"
      "bd_year (book_to_dict s' ?nb) = dict_get (d_year d0)"
      "bd_isbn (book_to_dict s' ?nb) = dict_get (d_isbn d0)"
    using created_book_title[OF tt, of now s]
    by (simp_all add: book_to_dict_def) (simp_all add: created_book_def)
  from data r g f show ?thesis by blast
qed

lemma create_author_then_get:
  assumes "fst (fst (create_author now body s)) = 201"
  shows "\<exists>d0 d s'. body = JsonObject d0
            \<and> create_author now body s = ((201, AuthorSaved ''Author created successfully'' d), s')
            \<and> get_author (ad_id d) s' = (200, AuthorOne d)
            \<and> dict_get (d_name d0) = Some (ad_name d)
            \<and> ad_birth_year d = dict_get (d_birth_year d0)
            \<and> ad_country d = dict_get (d_country d0)"
proof -
  from create_author_201E[OF assms] obtain d0 s' where
    data: "body = JsonObject d0" and tt: "truthy (dict_get (d_name d0))"
    and add: "add_author (created_author now d0 s) s = Inr s'"
    and r: "create_author now body s =
               ((201, AuthorSaved ''Author created successfully''
                    (author_to_dict s' (created_author now d0 s))), s')"
    by blast
  let ?na = "created_author now d0 s"
  let ?i = "next_id (map a_id (authors s))"
  have na: "a_id ?na = ?i" by (simp add: created_author_def)
  have fit: "fits_int64 ?i" using add_author_InrD(2)[OF add] na by simp
  have "author_row s' ?i = Some ?na"
    using author_row_fresh[of s] na add_author_InrD(1)[OF add]
    by (simp add: author_row_def find_append_fresh)
  with fit have "get_author_row s' ?i = Inr (Some ?na)" by (simp add: get_author_row_def)
  then have g: "get_author (ad_id (author_to_dict s' ?na)) s'
                  = (200, AuthorOne (author_to_dict s' ?na))"
    using na by (simp add: get_author_def author_to_dict_def)
  have f: "dict_get (d_name d0) = Some (ad_name (author_to_dict s' ?na))"
      "ad_birth_year (author_to_dict s' ?na) = dict_get (d_birth_year d0)"
      "ad_country (author_to_dict s' ?na) = dict_get (d_country d0)"
    using created_author_name[OF tt, of now s]
    by (simp_all add: author_to_dict_def) (simp_all add: created_author_def)
  from data r g f show ?thesis by blast
qed

text \<open>C9. After a create that is answered 201, a GET by the id of the returned entity
  is answered 200 with that same entity, whose fields are those of the request body.\<close>

theorem created_entity_retrievable:
  "(fst (fst (create_book uow now body s)) = 201 \<longrightarrow>
      (\<exists>d0 d s'. body = JsonObject d0
          \<and> create_book uow now body s = ((201, BookSaved ''Book created successfully'' d), s')
          \<and> get_book (bd_id d) s' = (200, BookOne d)
          \<and> dict_get (d_title d0) = Some (bd_title d)
          \<and> bd_year d = dict_get (d_year d0) \<and> bd_isbn d = dict_get (d_isbn d0)))
   \<and> (fst (fst (create_author now abody s)) = 201 \<longrightarrow>
      (\<exists>d0 d s'. abody = JsonObject d0
          \<and> create_author now abody s
              = ((201, AuthorSaved ''Author created successfully'' d), s')
          \<and> get_author (ad_id d) s' = (200, AuthorOne d)
          \<and> dict_get (d_name d0) = Some (ad_name d)
          \<and> ad_birth_year d = dict_get (d_birth_year d0)
          \<and> ad_country d = dict_get (d_country d0)))"
  using create_book_then_get create_author_then_get by blast

lemma sample_create_status:
  "fst (fst (create_book uow 7 (JsonObject emma) sample_db)) = 201"
  "fst (fst (create_author 7 (JsonObject austen) sample_db)) = 201"
  by code_simp+

theorem created_entity_retrievable_witness:
  "\<forall>uow.
   (\<exists>d s'. create_book uow 7 (JsonObject emma) sample_db
              = ((201, BookSaved ''Book created successfully'' d), s')
          \<and> get_book (bd_id d) s' = (200, BookOne d)
          \<and> bd_title d = ''Emma'')
   \<and> (\<exists>d s'. create_author 7 (JsonObject austen) sample_db
              = ((201, AuthorSaved ''Author created successfully'' d), s')
          \<and> get_author (ad_id d) s' = (200, AuthorOne d)
          \<and> ad_name d = ''Jane Austen'')"
proof
  fix uow
  note t = created_entity_retrievable[of uow 7 "JsonObject emma" sample_db "JsonObject austen"]
  from t[THEN conjunct1, THEN mp, OF sample_create_status(1)]
  obtain d0 d s' where b: "JsonObject emma = JsonObject d0"
     "create_book uow 7 (JsonObject emma) sample_db
              = ((201, BookSaved ''Book created successfully'' d), s')"
     "get_book (bd_id d) s' = (200, BookOne d)"
     "dict_get (d_title d0) = Some (bd_title d)"
    by (elim exE conjE)
  from b(1,4) have bt: "bd_title d = ''Emma''" by (auto simp: emma_def dict_get_def)
  from t[THEN conjunct2, THEN mp, OF sample_create_status(2)]
  obtain e0 e s2 where a: "JsonObject austen = JsonObject e0"
     "create_author 7 (JsonObject austen) sample_db
              = ((201, AuthorSaved ''Author created successfully'' e), s2)"
     "get_author (ad_id e) s2 = (200, AuthorOne e)"
     "dict_get (d_name e0) = Some (ad_name e)"
    by (elim exE conjE)
  from a(1,4) have an: "ad_name e = ''Jane Austen''" by (auto simp: austen_def dict_get_def)
  have 1: "\<exists>d s'. create_book uow 7 (JsonObject emma) sample_db
              = ((201, BookSaved ''Book created successfully'' d), s')
          \<and> get_book (bd_id d) s' = (200, BookOne d)
          \<and> bd_title d = ''Emma''"
    using b(2,3) bt by blast
  have 2: "\<exists>d s'. create_author 7 (JsonObject austen) sample_db
              = ((201, AuthorSaved ''Author created successfully'' d), s')
          \<and> get_author (ad_id d) s' = (200, AuthorOne d)
          \<and> ad_name d = ''Jane Austen''"
    using a(2,3) an by blast
  from 1 2 show "(\<exists>d s'. create_book uow 7 (JsonObject emma) sample_db
              = ((201, BookSaved ''Book created successfully'' d), s')
          \<and> get_book (bd_id d) s' = (200, BookOne d)
          \<and> bd_title d = ''Emma'')
   \<and> (\<exists>d s'. create_author 7 (JsonObject austen) sample_db
              = ((201, AuthorSaved ''Author created successfully'' d), s')
          \<and> get_author (ad_id d) s' = (200, AuthorOne d)
          \<and> ad_name d = ''Jane Austen'')" by (rule conjI)
qed

subsection \<open>Duplicate ISBNs\<close>

text \<open>C2: \<open>update_book\<close> has no ISBN check of its own. Giving Book 1 the ISBN of
  Book 2 violates the unique constraint at commit: the answer is 500, not the 400 that
  \<open>create_book\<close> gives for the same ISBN.\<close>

theorem update_book_duplicate_isbn_is_server_error:
  "b_isbn (books sample_db ! 1) = Some ''978-0451524935''
   \<and> d_isbn isbn_of_1984 = Some (Some ''978-0451524935'')
   \<and> update_book uow 1 (JsonObject isbn_of_1984) sample_db = ((500, ServerError), sample_db)
   \<and> create_book uow 0 (JsonObject (isbn_of_1984\<lparr>d_title := Some (Some ''Copy'')\<rparr>)) sample_db
       = ((400, Failure ''ISBN already exists''), sample_db)"
  by code_simp

text \<open>C6: \<open>create_book\<close> skips its ISBN check when the ISBN is the empty string, yet
  stores it. A second Book created with the empty ISBN violates the unique constraint at
  commit: the answer is 500, not 400.\<close>

theorem create_book_empty_isbn_twice_is_server_error:
  "fst (fst (create_book uow 0 (JsonObject blank_isbn) sample_db)) = 201
   \<and> fst (create_book uow 1 (JsonObject blank_isbn)
            (snd (create_book uow 0 (JsonObject blank_isbn) sample_db)))
       = (500, ServerError)"
  by code_simp

subsection \<open>Update: not-found before validation\<close>

lemma update_book_cases:
  assumes "get_book_row s i = Inr (Some book)"
  shows "(body = JsonNull \<or> (\<exists>d. body = JsonObject d \<and> book_data_empty d))
           \<and> update_book uow i body s = ((400, Failure ''No data provided''), s)
         \<or> body = NotJson \<and> update_book uow i body s = ((415, Aborted), s)
         \<or> body = Malformed \<and> update_book uow i body s = ((400, Aborted), s)
         \<or> (\<exists>d. body = JsonObject d \<and> \<not> book_data_empty d)
           \<and> (update_book uow i body s = ((500, ServerError), s)
              \<or> (\<exists>r s'. update_book uow i body s = ((200, r), s')))"
proof (cases body)
  case NotJson
  then show ?thesis using update_book_no_object[OF assms] by simp
next
  case Malformed
  then show ?thesis using update_book_no_object[OF assms] by simp
next
  case JsonNull
  then show ?thesis using update_book_no_object[OF assms] by simp
next
  case (JsonObject d)
  then show ?thesis
    by (simp add: update_book_unfold[OF assms] split: sum.splits)
qed

lemma update_author_cases:
  assumes "get_author_row s i = Inr (Some author)"
  shows "(body = JsonNull \<or> (\<exists>d. body = JsonObject d \<and> author_data_empty d))
           \<and> update_author i body s = ((400, Failure ''No data provided''), s)
         \<or> body = NotJson \<and> update_author i body s = ((415, Aborted), s)
         \<or> body = Malformed \<and> update_author i body s = ((400, Aborted), s)
         \<or> (\<exists>d. body = JsonObject d \<and> \<not> author_data_empty d)
           \<and> (update_author i body s = ((500, ServerError), s)
              \<or> (\<exists>r s'. update_author i body s = ((200, r), s')))"
proof (cases body)
  case NotJson
  then show ?thesis using update_author_no_object[OF assms] by simp
next
  case Malformed
  then show ?thesis using update_author_no_object[OF assms] by simp
next
  case JsonNull
  then show ?thesis using update_author_no_object[OF assms] by simp
next
  case (JsonObject d)
  then show ?thesis
    by (simp add: update_author_unfold[OF assms] split: sum.splits)
qed

lemma update_book_precedence:
  "(fits_int64 i \<and> book_row s i = None \<longrightarrow>
      update_book uow i body s = ((404, Failure ''Book not found''), s))
   \<and> (fst (update_book uow i body s) = (400, Failure ''No data provided'') \<longleftrightarrow>
        fits_int64 i \<and> book_row s i \<noteq> None
        \<and> (body = JsonNull \<or> (\<exists>d. body = JsonObject d \<and> book_data_empty d)))
   \<and> (fst (fst (update_book uow i body s)) \<noteq> 200 \<longrightarrow> snd (update_book uow i body s) = s)"
proof (cases "fits_int64 i")
  case False
  then show ?thesis using update_book_500[OF get_book_row_out[OF False]] by simp
next
  case True
  show ?thesis
  proof (cases "book_row s i")
    case None
    with True have "get_book_row s i = Inr None" by (simp add: get_book_row_def)
    from update_book_404[OF this] True None show ?thesis by simp
  next
    case (Some book)
    with True have g: "get_book_row s i = Inr (Some book)" by (simp add: get_book_row_def)
    from update_book_cases[OF g, of body uow] show ?thesis
      using Some True by auto
  qed
qed

lemma update_author_precedence:
  "(fits_int64 i \<and> author_row s i = None \<longrightarrow>
      update_author i body s = ((404, Failure ''Author not found''), s))
   \<and> (fst (update_author i body s) = (400, Failure ''No data provided'') \<longleftrightarrow>
        fits_int64 i \<and> author_row s i \<noteq> None
        \<and> (body = JsonNull \<or> (\<exists>d. body = JsonObject d \<and> author_data_empty d)))
   \<and> (fst (fst (update_author i body s)) \<noteq> 200 \<longrightarrow> snd (update_author i body s) = s)"
proof (cases "fits_int64 i")
  case False
  then show ?thesis using update_author_500[OF get_author_row_out[OF False]] by simp
next
  case True
  show ?thesis
  proof (cases "author_row s i")
    case None
    with True have "get_author_row s i = Inr None" by (simp add: get_author_row_def)
    from update_author_404[OF this] True None show ?thesis by simp
  next
    case (Some author)
    with True have g: "get_author_row s i = Inr (Some author)" by (simp add: get_author_row_def)
    from update_author_cases[OF g, of body] show ?thesis
      using Some True by auto
  qed
qed

lemma out_of_range: "\<not> fits_int64 (2 ^ 63)"
  by (simp add: fits_int64_def)

text \<open>C10, as the claim states it, fails: the routes accept the id \<open>2^63\<close>, no Book and
  no Author has it, and the update is answered 500, not 404, since the lookup raises.\<close>

theorem update_out_of_range_counterexample:
  "\<forall>uow.
     book_row sample_db (2 ^ 63) = None
     \<and> update_book uow (2 ^ 63) JsonNull sample_db = ((500, ServerError), sample_db)
     \<and> author_row sample_db (2 ^ 63) = None
     \<and> update_author (2 ^ 63) JsonNull sample_db = ((500, ServerError), sample_db)"
proof
  fix uow
  have 1: "book_row sample_db (2 ^ 63) = None" by code_simp
  have 2: "author_row sample_db (2 ^ 63) = None" by code_simp
  have 3: "update_book uow (2 ^ 63) JsonNull sample_db = ((500, ServerError), sample_db)"
    by (rule update_book_500[OF get_book_row_out[OF out_of_range]])
  have 4: "update_author (2 ^ 63) JsonNull sample_db = ((500, ServerError), sample_db)"
    by (rule update_author_500[OF get_author_row_out[OF out_of_range]])
  from 1 2 3 4 show "book_row sample_db (2 ^ 63) = None
     \<and> update_book uow (2 ^ 63) JsonNull sample_db = ((500, ServerError), sample_db)
     \<and> author_row sample_db (2 ^ 63) = None
     \<and> update_author (2 ^ 63) JsonNull sample_db = ((500, ServerError), sample_db)"
    by (intro conjI)
qed

text \<open>C10, amended. An update of an id in the 64-bit range with no stored entity is
  answered 404 whatever the body, a missing or empty one included; the answer 400
  \<open>No data provided\<close> is given exactly when the entity exists and the body is null or an
  empty object; and an update that is not answered 200 leaves the store as it was.\<close>

theorem update_not_found_before_validation:
  "(fits_int64 i \<and> book_row s i = None \<longrightarrow>
      update_book uow i body s = ((404, Failure ''Book not found''), s))
   \<and> (fst (update_book uow i body s) = (400, Failure ''No data provided'') \<longleftrightarrow>
        fits_int64 i \<and> book_row s i \<noteq> None
        \<and> (body = JsonNull \<or> (\<exists>d. body = JsonObject d \<and> book_data_empty d)))
   \<and> (fst (fst (update_book uow i body s)) \<noteq> 200 \<longrightarrow> snd (update_book uow i body s) = s)
   \<and> (fits_int64 j \<and> author_row s j = None \<longrightarrow>
      update_author j abody s = ((404, Failure ''Author not found''), s))
   \<and> (fst (update_author j abody s) = (400, Failure ''No data provided'') \<longleftrightarrow>
        fits_int64 j \<and> author_row s j \<noteq> None
        \<and> (abody = JsonNull \<or> (\<exists>d. abody = JsonObject d \<and> author_data_empty d)))
   \<and> (fst (fst (update_author j abody s)) \<noteq> 200 \<longrightarrow> snd (update_author j abody s) = s)"
  using update_book_precedence[of i s uow body] update_author_precedence[of j s abody]
  by blast

theorem update_not_found_before_validation_witness:
  "\<forall>uow.
     update_book uow 9 NotJson sample_db = ((404, Failure ''Book not found''), sample_db)
     \<and> update_author 9 JsonNull sample_db = ((404, Failure ''Author not found''), sample_db)
     \<and> fst (update_book uow 2 JsonNull sample_db) = (400, Failure ''No data provided'')
     \<and> fst (update_author 2 JsonNull sample_db) = (400, Failure ''No data provided'')
     \<and> snd (update_book uow 2 JsonNull sample_db) = sample_db"
proof
  fix uow
  note t9 = update_not_found_before_validation[of 9 sample_db uow NotJson 9 JsonNull]
  note t2 = update_not_found_before_validation[of 2 sample_db uow JsonNull 2 JsonNull]
  have m: "fits_int64 9 \<and> book_row sample_db 9 = None"
      "fits_int64 9 \<and> author_row sample_db 9 = None"
    by (rule sample_rows)+
  have f: "fits_int64 2 \<and> book_row sample_db 2 \<noteq> None"
      "fits_int64 2 \<and> author_row sample_db 2 \<noteq> None"
    using sample_rows(1,3) by simp_all
  from t9 m have 1: "update_book uow 9 NotJson sample_db
        = ((404, Failure ''Book not found''), sample_db)"
    and 2: "update_author 9 JsonNull sample_db = ((404, Failure ''Author not found''), sample_db)"
    by blast+
  from t2 f have 3: "fst (update_book uow 2 JsonNull sample_db)
        = (400, Failure ''No data provided'')"
    and 4: "fst (update_author 2 JsonNull sample_db) = (400, Failure ''No data provided'')"
    by blast+
  from 3 have "fst (fst (update_book uow 2 JsonNull sample_db)) \<noteq> 200" by simp
  with t2 have 5: "snd (update_book uow 2 JsonNull sample_db) = sample_db" by blast
  from 1 2 3 4 5 show "update_book uow 9 NotJson sample_db
        = ((404, Failure ''Book not found''), sample_db)
     \<and> update_author 9 JsonNull sample_db = ((404, Failure ''Author not found''), sample_db)
     \<and> fst (update_book uow 2 JsonNull sample_db) = (400, Failure ''No data provided'')
     \<and> fst (update_author 2 JsonNull sample_db) = (400, Failure ''No data provided'')
     \<and> snd (update_book uow 2 JsonNull sample_db) = sample_db"
    by (intro conjI)
qed

subsection \<open>Resolving author ids, and the commit of a changed book\<close>

lemma authors_named_Cons:
  "authors_named s (i # ids) =
     (case author_row s i of None \<Rightarrow> [] | Some a \<Rightarrow> [a]) @ authors_named s ids"
  by (simp add: authors_named_def)

lemma authors_named_Nil [simp]: "authors_named s [] = []"
  by (simp add: authors_named_def)

lemma set_authors_named:
  "set (authors_named s ids) = {a. \<exists>j \<in> set ids. author_row s j = Some a}"
proof (induction ids)
  case Nil
  show ?case by simp
next
  case (Cons i ids)
  show ?case
    unfolding authors_named_Cons using Cons.IH
    by (auto split: option.splits)
qed

lemma author_row_unique:
  assumes "distinct (map a_id (authors s))" "a \<in> set (authors s)"
  shows "author_row s (a_id a) = Some a"
proof -
  have "author_row s (a_id a) \<noteq> None"
    using assms(2) by (auto simp: author_row_def find_None_iff)
  then obtain a' where a': "author_row s (a_id a) = Some a'" by blast
  from author_row_SomeD[OF a'] have "a' \<in> set (authors s)" "a_id a' = a_id a" by simp_all
  with assms have "a' = a"
    by (meson distinct_map inj_onD)
  with a' show ?thesis by simp
qed

lemma set_authors_named_pk:
  assumes "distinct (map a_id (authors s))"
  shows "set (authors_named s ids) = {a \<in> set (authors s). a_id a \<in> set ids}"
  unfolding set_authors_named
  using author_row_SomeD author_row_unique[OF assms] by blast


lemma authors_named_filter:
  "authors_named s (filter (\<lambda>j. author_row s j \<noteq> None) ids) = authors_named s ids"
  by (induction ids) (auto simp: authors_named_Cons split: option.splits)









lemma saved_links_same:
  assumes pk: "distinct (map a_id (authors s))"
      and sub: "set new \<subseteq> set (authors s)"
      and a: "a \<in> set (authors s)"
      and bi: "b_id book = i"
  shows "(i, a_id a) \<in> set (filter (\<lambda>r. r \<notin> set (map (\<lambda>a. (i, a_id a))
                                      (filter (\<lambda>a. a \<notin> set new) (book_authors s book))))
                 (book_author s)
               @ map (\<lambda>a. (i, a_id a))
                   (filter (\<lambda>a. a \<notin> set (book_authors s book)) (remdups new)))
         \<longleftrightarrow> a \<in> set new"
proof -
  let ?old = "book_authors s book"
  have inj: "\<And>x y. x \<in> set (authors s) \<Longrightarrow> y \<in> set (authors s) \<Longrightarrow> a_id x = a_id y \<Longrightarrow> x = y"
    using pk by (meson distinct_map inj_onD)
  have old: "\<And>x. x \<in> set ?old \<longleftrightarrow> x \<in> set (authors s) \<and> (i, a_id x) \<in> set (book_author s)"
    using bi by (auto simp: book_authors_def)
  have oldsub: "set ?old \<subseteq> set (authors s)" by (auto simp: book_authors_def)
  show ?thesis
  proof
    assume "a \<in> set new"
    show "(i, a_id a) \<in> set (filter (\<lambda>r. r \<notin> set (map (\<lambda>a. (i, a_id a))
                                      (filter (\<lambda>a. a \<notin> set new) ?old)))
                 (book_author s)
               @ map (\<lambda>a. (i, a_id a)) (filter (\<lambda>a. a \<notin> set ?old) (remdups new)))"
    proof (cases "a \<in> set ?old")
      case False
      with \<open>a \<in> set new\<close> show ?thesis by auto
    next
      case True
      then have row: "(i, a_id a) \<in> set (book_author s)" using old by blast
      have "(i, a_id a) \<notin> set (map (\<lambda>a. (i, a_id a)) (filter (\<lambda>a. a \<notin> set new) ?old))"
      proof
        assume "(i, a_id a) \<in> set (map (\<lambda>a. (i, a_id a)) (filter (\<lambda>a. a \<notin> set new) ?old))"
        then obtain r where r: "r \<in> set ?old" "r \<notin> set new" "a_id r = a_id a" by auto
        with oldsub a inj have "r = a" by blast
        with r \<open>a \<in> set new\<close> show False by simp
      qed
      with row show ?thesis by simp
    qed
  next
    assume h: "(i, a_id a) \<in> set (filter (\<lambda>r. r \<notin> set (map (\<lambda>a. (i, a_id a))
                                      (filter (\<lambda>a. a \<notin> set new) ?old)))
                 (book_author s)
               @ map (\<lambda>a. (i, a_id a)) (filter (\<lambda>a. a \<notin> set ?old) (remdups new)))"
    show "a \<in> set new"
    proof (rule ccontr)
      assume n: "a \<notin> set new"
      from h consider
          "(i, a_id a) \<in> set (book_author s)"
          "(i, a_id a) \<notin> set (map (\<lambda>a. (i, a_id a)) (filter (\<lambda>a. a \<notin> set new) ?old))"
        | r where "r \<in> set new" "a_id r = a_id a"
        by auto
      then show False
      proof cases
        case 1
        from 1(1) a have "a \<in> set ?old" using old by blast
        with n have "(i, a_id a) \<in> set (map (\<lambda>a. (i, a_id a)) (filter (\<lambda>a. a \<notin> set new) ?old))"
          by auto
        with 1(2) show False by blast
      next
        case 2
        with sub a inj have "r = a" by blast
        with 2 n show False by simp
      qed
    qed
  qed
qed

subsection \<open>Partial update\<close>

lemma updated_book_id [simp]: "b_id (updated_book book d) = b_id book"
  by (simp add: updated_book_def)

lemma updated_author_id [simp]: "a_id (updated_author author d) = a_id author"
  by (simp add: updated_author_def)

lemma book_authors_updated [simp]: "book_authors s (updated_book book d) = book_authors s book"
  by (simp add: book_authors_def)















end
